theory Spec2Isabelle
  imports Main "HOL-Library.AList"
begin

section \<open>Shared vocabulary of the debugging broker\<close>

text \<open>
  The repository holds two session managers. The one in \<^verbatim>\<open>src/session-manager.ts\<close>
  talks to the target through \<^verbatim>\<open>CDPClient\<close> and owns a \<^verbatim>\<open>SourceMapManager\<close>;
  its definitions keep the names of the source. The other one (the file that imports
  \<^verbatim>\<open>WebSocketClient\<close> and \<^verbatim>\<open>ServerConfig\<close>) is the variant with a server
  configuration; its definitions carry the prefix \<open>wk_\<close> where a name would clash.
  Record fields carry a short prefix of their record, because several records of the
  source share field names (\<open>id\<close>, \<open>url\<close>, \<open>scriptId\<close>, \<open>lineNumber\<close>, ...).

  A JavaScript string is modelled as a \<^typ>\<open>string\<close> holding its UTF-8 encoding, a number
  that is a protocol integer as an \<^typ>\<open>int\<close>, an optional field as an option, a
  \<^verbatim>\<open>Map\<close> as an association list in insertion order (\<^const>\<open>AList.update\<close> keeps the
  position of an existing key and appends a new one, as \<^verbatim>\<open>Map.prototype.set\<close> does),
  a thrown error as \<open>Inl\<close>. An asynchronous operation takes the reply of the target as an
  argument; where the source writes to the session after an \<^verbatim>\<open>await\<close>, the events
  handled while it waited are an argument too.
\<close>

datatype SessionState = CONNECTING | CONNECTED | PAUSED | RUNNING | DISCONNECTED

datatype ErrorCode =
    SESSION_NOT_FOUND
  | SESSION_INVALID_STATE
  | CONNECTION_FAILED
  | PROTOCOL_ERROR
  | INVALID_PARAMETERS
  | TIMEOUT
  | BREAKPOINT_NOT_FOUND
  | SCRIPT_NOT_FOUND
  | SOURCE_MAP_ERROR
  | MAX_SESSIONS_REACHED

text \<open>
  \<open>ErrorCode\<close> joins the codes of the two managers: \<open>MAX_SESSIONS_REACHED\<close> is raised
  by the manager with a server configuration only, \<open>BREAKPOINT_NOT_FOUND\<close>,
  \<open>SCRIPT_NOT_FOUND\<close> and \<open>SOURCE_MAP_ERROR\<close> exist in the other one only.
  \<open>DebuggerError code message\<close> is an error built by \<^verbatim>\<open>createError\<close> (or
  \<^verbatim>\<open>new DebuggerError\<close>); \<open>TargetError message\<close> is an error thrown by the client layer
  (a rejected command, a lost transport) that the session manager lets through.
\<close>

datatype error = DebuggerError ErrorCode string | TargetError string

primrec error_code :: "error \<Rightarrow> ErrorCode option" where
  "error_code (DebuggerError c m) = Some c"
| "error_code (TargetError m) = None"

primrec error_message :: "error \<Rightarrow> string" where
  "error_message (DebuggerError c m) = m"
| "error_message (TargetError m) = m"

subsection \<open>String helpers of the host language\<close>

definition startsWith :: "string \<Rightarrow> string \<Rightarrow> bool" where
  "startsWith s p = (take (length p) s = p)"

primrec includes_str :: "string \<Rightarrow> string \<Rightarrow> bool" where
  "includes_str [] p = (p = [])"
| "includes_str (c # cs) p = (startsWith (c # cs) p \<or> includes_str cs p)"

text \<open>A template literal prints an integer in decimal.\<close>

fun show_nat :: "nat \<Rightarrow> string" where
  "show_nat n =
     (if n < 10 then [''0123456789'' ! n]
      else show_nat (n div 10) @ [''0123456789'' ! (n mod 10)])"

declare show_nat.simps [simp del]

definition show_int :: "int \<Rightarrow> string" where
  "show_int i = (if i < 0 then CHR ''-'' # show_nat (nat (- i)) else show_nat (nat i))"

text \<open>Truthiness of an optional string: \<^verbatim>\<open>undefined\<close> and \<^verbatim>\<open>""\<close> are falsy.\<close>

primrec truthy :: "string option \<Rightarrow> bool" where
  "truthy None = False"
| "truthy (Some s) = (s \<noteq> [])"

subsection \<open>Protocol data\<close>

datatype JsValue = JsNull | JsBoolean bool | JsNumber int | JsString string

text \<open>
  \<open>ro_value = None\<close> says that the key \<^verbatim>\<open>value\<close> is absent from the object
  (\<^verbatim>\<open>'value' in result\<close> is false).
\<close>

record RemoteObject =
  ro_type :: string
  ro_objectId :: "string option"
  ro_value :: "JsValue option"
  ro_unserializableValue :: "string option"

record Location =
  loc_scriptId :: string
  loc_lineNumber :: int
  loc_columnNumber :: "int option"

record BreakpointLocation =
  bl_scriptId :: string
  bl_lineNumber :: int
  bl_columnNumber :: int

record BreakpointInfo =
  bp_id :: string
  bp_url :: string
  bp_lineNumber :: int
  bp_columnNumber :: "int option"
  bp_condition :: "string option"
  bp_enabled :: bool
  bp_resolvedLocations :: "BreakpointLocation list"

record ScriptInfo =
  si_scriptId :: string
  si_url :: string
  si_sourceMapUrl :: "string option"
  si_startLine :: int
  si_startColumn :: int
  si_endLine :: int
  si_endColumn :: int
  si_hash :: string
  si_isModule :: "bool option"
  si_length :: "int option"

record Scope =
  sc_type :: string
  sc_object :: RemoteObject

record CallFrame =
  cf_callFrameId :: string
  cf_functionName :: string
  cf_location :: Location
  cf_scopeChain :: "Scope list"
  cf_this :: RemoteObject

text \<open>
  The stack trace and the auxiliary data of a pause are opaque to the session manager:
  they are stored and handed back.
\<close>

type_synonym StackTrace = string

record PausedState =
  ps_reason :: string
  ps_callFrames :: "CallFrame list"
  ps_asyncStackTrace :: "StackTrace option"
  ps_data :: "JsValue option"
  ps_hitBreakpoints :: "string list option"

record PropertyDescriptor =
  pd_name :: string
  pd_value :: "RemoteObject option"
  pd_writable :: "bool option"
  pd_configurable :: bool
  pd_enumerable :: bool

record ExceptionDetails =
  ed_text :: string
  ed_lineNumber :: int
  ed_columnNumber :: int

record EvaluateResponse =
  er_result :: RemoteObject
  er_exceptionDetails :: "ExceptionDetails option"

record CallArgument =
  ca_value :: "JsValue option"
  ca_unserializableValue :: "string option"
  ca_objectId :: "string option"

record SetBreakpointByUrlResponse =
  sbr_breakpointId :: string
  sbr_locations :: "Location list"

text \<open>The commands whose sending a property speaks about.\<close>

datatype Command =
    EvaluateOnCallFrame string string bool
  | SetVariableValue int string CallArgument string
  | GetProperties string bool

section \<open>The source-map manager\<close>

text \<open>
  A \<^verbatim>\<open>SourceMapConsumer\<close> is a library object; the model keeps the two things the
  manager reads from it: the mappings, as the answer they give at a generated line and
  column, and the list of sources. A position the mappings do not cover has no source.
\<close>

record MappedPosition =
  mp_source :: "string option"
  mp_line :: "int option"
  mp_column :: "int option"
  mp_name :: "string option"

record SourceMapConsumer =
  smc_mappings :: "int \<Rightarrow> int \<Rightarrow> MappedPosition"
  smc_sources :: "string list"

text \<open>
  \<^verbatim>\<open>consumer.originalPositionFor({line, column})\<close> of the \<^verbatim>\<open>source-map\<close> library. Lines
  are 1-based and columns 0-based there: the library throws for a line below 1 and for
  a column below 0 before it searches the mappings.
\<close>

definition originalPositionFor :: "SourceMapConsumer \<Rightarrow> int \<Rightarrow> int \<Rightarrow> error + MappedPosition" where
  "originalPositionFor consumer line column =
     (if line < 1 then Inl (TargetError ''Line numbers must be >= 1'')
      else if column < 0 then Inl (TargetError ''Column numbers must be >= 0'')
      else Inr (smc_mappings consumer line column))"

record RawSourceMap =
  rsm_version :: int
  rsm_sources :: "string list"
  rsm_mappings :: string

text \<open>
  What the manager and the event handlers call outside the repository:
  \<^verbatim>\<open>Buffer.from(s, 'base64').toString('utf-8')\<close>, \<^verbatim>\<open>JSON.parse\<close> (\<open>None\<close> when it
  throws), \<^verbatim>\<open>new SourceMapConsumer\<close> (\<open>None\<close> when it throws), reading a file and an
  HTTP GET (\<open>None\<close> for \<^verbatim>\<open>null\<close> or a failure), and \<^verbatim>\<open>new URL(rel, new URL(base))\<close>
  printed (\<open>None\<close> when either constructor throws).
\<close>

record Platform =
  base64_decode :: "string \<Rightarrow> string"
  json_parse :: "string \<Rightarrow> RawSourceMap option"
  new_SourceMapConsumer :: "RawSourceMap \<Rightarrow> SourceMapConsumer option"
  read_file :: "string \<Rightarrow> string option"
  http_get :: "string \<Rightarrow> string option"
  url_resolve :: "string \<Rightarrow> string \<Rightarrow> string option"

record SourceMapManager =
  consumers :: "(string \<times> SourceMapConsumer) list"
  sourceMapUrls :: "(string \<times> string) list"
  originalSources :: "(string \<times> string list) list"

definition strip_prefix :: "string \<Rightarrow> string \<Rightarrow> string option" where
  "strip_prefix p s = (if startsWith s p then Some (drop (length p) s) else None)"

text \<open>
  The dot of a regular expression without the \<^verbatim>\<open>s\<close> flag matches every character but
  the line terminators LF, CR, U+2028 and U+2029 (the last two are three bytes each in
  UTF-8).
\<close>

definition has_line_terminator :: "string \<Rightarrow> bool" where
  "has_line_terminator s =
     (CHR 0x0A \<in> set s \<or> CHR 0x0D \<in> set s \<or>
      includes_str s [CHR 0xE2, CHR 0x80, CHR 0xA8] \<or>
      includes_str s [CHR 0xE2, CHR 0x80, CHR 0xA9])"

text \<open>\<^verbatim>\<open>(.+)$\<close>: the rest of the string, not empty, on one line.\<close>

definition dot_plus_to_end :: "string \<Rightarrow> string option" where
  "dot_plus_to_end s = (if s \<noteq> [] \<and> \<not> has_line_terminator s then Some s else None)"

text \<open>
  The match of \<^verbatim>\<open>/^data:application\/json;(?:charset=utf-8;)?base64,(.+)$/\<close> in
  \<^verbatim>\<open>loadInlineSourceMap\<close>, returning group 1. The optional group is tried first, then
  skipped, as the matcher backtracks.
\<close>

definition match_inline :: "string \<Rightarrow> string option" where
  "match_inline dataUrl =
     (case strip_prefix ''data:application/json;'' dataUrl of
        None \<Rightarrow> None
      | Some r \<Rightarrow>
          (case (case strip_prefix ''charset=utf-8;'' r of
                   None \<Rightarrow> None
                 | Some r' \<Rightarrow>
                     (case strip_prefix ''base64,'' r' of
                        None \<Rightarrow> None
                      | Some p \<Rightarrow> dot_plus_to_end p)) of
             Some p \<Rightarrow> Some p
           | None \<Rightarrow>
               (case strip_prefix ''base64,'' r of
                  None \<Rightarrow> None
                | Some p \<Rightarrow> dot_plus_to_end p)))"

definition loadInlineSourceMap ::
  "Platform \<Rightarrow> SourceMapManager \<Rightarrow> string \<Rightarrow> string \<Rightarrow> SourceMapManager \<times> bool" where
  "loadInlineSourceMap P m scriptId dataUrl =
     (case match_inline dataUrl of
        None \<Rightarrow> (m, False)
      | Some payload \<Rightarrow>
          (case json_parse P (base64_decode P payload) of
             None \<Rightarrow> (m, False)
           | Some rawSourceMap \<Rightarrow>
               (case new_SourceMapConsumer P rawSourceMap of
                  None \<Rightarrow> (m, False)
                | Some consumer \<Rightarrow>
                    (m\<lparr> consumers := AList.update scriptId consumer (consumers m),
                        originalSources :=
                          AList.update scriptId (smc_sources consumer) (originalSources m) \<rparr>,
                     True))))"

text \<open>
  The data-URL form as section 6.3 of the specification words it:
  \<^verbatim>\<open>^data:application/json(?:;charset=[^;]+)?;base64,(.+)$\<close>. This definition follows
  the specification, not the source; it is there to be compared with \<^const>\<open>match_inline\<close>.
\<close>

definition spec_data_url_payload :: "string \<Rightarrow> string option" where
  "spec_data_url_payload u =
     (case strip_prefix ''data:application/json'' u of
        None \<Rightarrow> None
      | Some r \<Rightarrow>
          (case (case strip_prefix '';charset='' r of
                   None \<Rightarrow> None
                 | Some r' \<Rightarrow>
                     (if takeWhile (\<lambda>c. c \<noteq> CHR '';'') r' = [] then None
                      else (case strip_prefix '';base64,'' (dropWhile (\<lambda>c. c \<noteq> CHR '';'') r') of
                              None \<Rightarrow> None
                            | Some p \<Rightarrow> dot_plus_to_end p))) of
             Some p \<Rightarrow> Some p
           | None \<Rightarrow>
               (case strip_prefix '';base64,'' r of
                  None \<Rightarrow> None
                | Some p \<Rightarrow> dot_plus_to_end p)))"

text \<open>\<^verbatim>\<open>scriptUrl.substring(0, scriptUrl.lastIndexOf('/') + 1)\<close>.\<close>

definition baseDir :: "string \<Rightarrow> string" where
  "baseDir scriptUrl = rev (dropWhile (\<lambda>c. c \<noteq> CHR ''/'') (rev scriptUrl))"

definition resolveSourceMapUrl :: "Platform \<Rightarrow> string \<Rightarrow> string \<Rightarrow> string" where
  "resolveSourceMapUrl P scriptUrl sourceMapUrl =
     (if startsWith sourceMapUrl ''http://'' \<or> startsWith sourceMapUrl ''https://'' \<or>
         startsWith sourceMapUrl ''file://'' then sourceMapUrl
      else if startsWith sourceMapUrl ''data:'' then sourceMapUrl
      else (case url_resolve P scriptUrl sourceMapUrl of
              Some u \<Rightarrow> u
            | None \<Rightarrow> baseDir scriptUrl @ sourceMapUrl))"

definition loadSourceMap ::
  "Platform \<Rightarrow> SourceMapManager \<Rightarrow> ScriptInfo \<Rightarrow> (string \<Rightarrow> string option)
     \<Rightarrow> SourceMapManager \<times> bool" where
  "loadSourceMap P m scriptInfo fetchSourceMap =
     (if \<not> truthy (si_sourceMapUrl scriptInfo) then (m, False)
      else
        let sourceMapUrl = resolveSourceMapUrl P (si_url scriptInfo) (the (si_sourceMapUrl scriptInfo))
        in (if \<not> truthy (fetchSourceMap sourceMapUrl) then (m, False)
            else
              (case json_parse P (the (fetchSourceMap sourceMapUrl)) of
                 None \<Rightarrow> (m, False)
               | Some rawSourceMap \<Rightarrow>
                   (case new_SourceMapConsumer P rawSourceMap of
                      None \<Rightarrow> (m, False)
                    | Some consumer \<Rightarrow>
                        (m\<lparr> consumers := AList.update (si_scriptId scriptInfo) consumer (consumers m),
                            sourceMapUrls :=
                              AList.update (si_scriptId scriptInfo) sourceMapUrl (sourceMapUrls m),
                            originalSources :=
                              AList.update (si_scriptId scriptInfo) (smc_sources consumer)
                                (originalSources m) \<rparr>,
                         True)))))"

record OriginalLocation =
  ol_source :: string
  ol_line :: "int option"
  ol_column :: "int option"
  ol_name :: "string option"

text \<open>
  \<^verbatim>\<open>SourceMapManager.getOriginalLocation\<close>. Nothing catches what the query throws, so
  the error is the result of the call.
\<close>

definition smm_getOriginalLocation ::
  "SourceMapManager \<Rightarrow> string \<Rightarrow> int \<Rightarrow> int \<Rightarrow> error + OriginalLocation option" where
  "smm_getOriginalLocation m scriptId line column =
     (case map_of (consumers m) scriptId of
        None \<Rightarrow> Inr None
      | Some consumer \<Rightarrow>
          (case originalPositionFor consumer line column of
             Inl e \<Rightarrow> Inl e
           | Inr position \<Rightarrow>
               (if \<not> truthy (mp_source position) then Inr None
                else Inr (Some \<lparr> ol_source = the (mp_source position),
                                  ol_line = mp_line position,
                                  ol_column = mp_column position,
                                  ol_name = mp_name position \<rparr>))))"

definition getOriginalSources :: "SourceMapManager \<Rightarrow> string \<Rightarrow> string list option" where
  "getOriginalSources m scriptId = map_of (originalSources m) scriptId"

definition hasSourceMap :: "SourceMapManager \<Rightarrow> string \<Rightarrow> bool" where
  "hasSourceMap m scriptId = (map_of (consumers m) scriptId \<noteq> None)"

definition smm_clear :: "SourceMapManager \<Rightarrow> SourceMapManager" where
  "smm_clear m = \<lparr> consumers = [], sourceMapUrls = [], originalSources = [] \<rparr>"

section \<open>The CDP session manager\<close>

record CDPClient =
  scripts :: "(string \<times> ScriptInfo) list"
  connected :: bool

definition getAllScripts :: "CDPClient \<Rightarrow> ScriptInfo list" where
  "getAllScripts c = map snd (scripts c)"

definition getScript :: "CDPClient \<Rightarrow> string \<Rightarrow> ScriptInfo option" where
  "getScript c scriptId = map_of (scripts c) scriptId"

text \<open>\<^verbatim>\<open>ensureConnected\<close> of the client: every command starts with it.\<close>

definition ensureConnected :: "CDPClient \<Rightarrow> error + unit" where
  "ensureConnected c =
     (if \<not> connected c then Inl (TargetError ''Not connected to CDP endpoint'') else Inr ())"

record ManagedSession =
  ms_id :: string
  ms_name :: "string option"
  targetUrl :: string
  state :: SessionState
  cdpClient :: CDPClient
  sourceMapManager :: SourceMapManager
  breakpoints :: "(string \<times> BreakpointInfo) list"
  pausedState :: "PausedState option"
  createdAt :: nat

subsection \<open>Events\<close>

datatype CDPEvent =
    Paused PausedState
  | Resumed
  | ScriptParsed ScriptInfo
  | BreakpointResolved string Location
  | Disconnected

text \<open>The fetcher that the \<^verbatim>\<open>scriptParsed\<close> handler hands to \<^verbatim>\<open>loadSourceMap\<close>.\<close>

definition fetcher :: "Platform \<Rightarrow> string \<Rightarrow> string option" where
  "fetcher P url =
     (if startsWith url ''file://'' then read_file P (drop (length ''file://'') url)
      else http_get P url)"

definition columnOrZero :: "int option \<Rightarrow> int" where
  "columnOrZero c = (case c of None \<Rightarrow> 0 | Some n \<Rightarrow> n)"

definition toBreakpointLocation :: "Location \<Rightarrow> BreakpointLocation" where
  "toBreakpointLocation loc =
     \<lparr> bl_scriptId = loc_scriptId loc,
       bl_lineNumber = loc_lineNumber loc,
       bl_columnNumber = columnOrZero (loc_columnNumber loc) \<rparr>"

text \<open>
  The handlers of \<^verbatim>\<open>setupSessionEventHandlers\<close>, each after the part of the client's
  own handler (the script cache, the \<^verbatim>\<open>connected\<close> flag). The notifications to the
  outer layer change nothing in the session and are left out. The source-map load of a
  \<^verbatim>\<open>scriptParsed\<close> event is taken in one step.
\<close>

fun handle_event :: "Platform \<Rightarrow> ManagedSession \<Rightarrow> CDPEvent \<Rightarrow> ManagedSession" where
  "handle_event P session (Paused params) =
     session\<lparr> state := PAUSED, pausedState := Some params \<rparr>"
| "handle_event P session Resumed =
     session\<lparr> state := RUNNING, pausedState := None \<rparr>"
| "handle_event P session (ScriptParsed params) =
     (let cached = session\<lparr> cdpClient := (cdpClient session)
                      \<lparr> scripts := AList.update (si_scriptId params) params
                                     (scripts (cdpClient session)) \<rparr> \<rparr>
      in if truthy (si_sourceMapUrl params) then
           (if startsWith (the (si_sourceMapUrl params)) ''data:'' then
              cached\<lparr> sourceMapManager :=
                  fst (loadInlineSourceMap P (sourceMapManager session) (si_scriptId params)
                         (the (si_sourceMapUrl params))) \<rparr>
            else
              cached\<lparr> sourceMapManager :=
                  fst (loadSourceMap P (sourceMapManager session) params (fetcher P)) \<rparr>)
         else cached)"
| "handle_event P session (BreakpointResolved breakpointId location) =
     (case map_of (breakpoints session) breakpointId of
        None \<Rightarrow> session
      | Some breakpoint \<Rightarrow>
          session\<lparr> breakpoints :=
            AList.update breakpointId
              (breakpoint\<lparr> bp_resolvedLocations :=
                  bp_resolvedLocations breakpoint @ [toBreakpointLocation location] \<rparr>)
              (breakpoints session) \<rparr>)"
| "handle_event P session Disconnected =
     session\<lparr> cdpClient := (cdpClient session)\<lparr> connected := False \<rparr>,
              state := DISCONNECTED, pausedState := None \<rparr>"

definition handle_events :: "Platform \<Rightarrow> ManagedSession \<Rightarrow> CDPEvent list \<Rightarrow> ManagedSession" where
  "handle_events P session events = foldl (handle_event P) session events"

subsection \<open>The registry\<close>

type_synonym Sessions = "(string \<times> ManagedSession) list"

definition getSession :: "Sessions \<Rightarrow> string \<Rightarrow> error + ManagedSession" where
  "getSession sessions sessionId =
     (case map_of sessions sessionId of
        None \<Rightarrow> Inl (DebuggerError SESSION_NOT_FOUND (''Session '' @ sessionId @ '' not found''))
      | Some session \<Rightarrow> Inr session)"

text \<open>
  \<^verbatim>\<open>createSession\<close>. \<open>sessionId\<close> is the identifier \<^verbatim>\<open>uuidv4()\<close> returns, \<open>now\<close> the
  clock, \<open>during\<close> the events the client delivers while \<^verbatim>\<open>cdpClient.connect\<close> is
  pending (its handlers are installed before the domains are enabled), \<open>connectFailure\<close>
  the message of the error \<^verbatim>\<open>connect\<close> rejects with, if it does.
\<close>

definition createSession ::
  "Platform \<Rightarrow> Sessions \<Rightarrow> string \<Rightarrow> string \<Rightarrow> string option \<Rightarrow> nat \<Rightarrow> CDPEvent list
     \<Rightarrow> string option \<Rightarrow> Sessions \<times> (error + string)" where
  "createSession P sessions sessionId url name now during connectFailure =
     (let session = \<lparr> ms_id = sessionId, ms_name = name, targetUrl = url, state = CONNECTING,
                       cdpClient = \<lparr> scripts = [], connected = False \<rparr>,
                       sourceMapManager = \<lparr> consumers = [], sourceMapUrls = [], originalSources = [] \<rparr>,
                       breakpoints = [], pausedState = None, createdAt = now \<rparr>
      in case connectFailure of
           None \<Rightarrow>
             (AList.update sessionId
                ((handle_events P (session\<lparr> cdpClient := (cdpClient session)\<lparr> connected := True \<rparr> \<rparr>)
                    during)\<lparr> state := CONNECTED \<rparr>)
                sessions,
              Inr sessionId)
         | Some message \<Rightarrow>
             (sessions,
              Inl (DebuggerError CONNECTION_FAILED
                     (''Failed to connect to '' @ url @ '': '' @ message))))"

subsection \<open>Guards\<close>

definition ensurePaused :: "ManagedSession \<Rightarrow> error + unit" where
  "ensurePaused session =
     (if state session \<noteq> PAUSED \<or> pausedState session = None
      then Inl (DebuggerError SESSION_INVALID_STATE (''Session '' @ ms_id session @ '' is not paused''))
      else Inr ())"

definition ensureRunning :: "ManagedSession \<Rightarrow> error + unit" where
  "ensureRunning session =
     (if state session \<noteq> RUNNING \<and> state session \<noteq> CONNECTED
      then Inl (DebuggerError SESSION_INVALID_STATE (''Session '' @ ms_id session @ '' is not running''))
      else Inr ())"

subsection \<open>Breakpoints\<close>

text \<open>
  The operations below take the session that \<^verbatim>\<open>getSession(sessionId)\<close> returned; an
  unknown identifier has failed with \<open>SESSION_NOT_FOUND\<close> before. \<open>reply\<close> is what the
  target answers to the one command of the operation.
\<close>

definition setBreakpoint ::
  "ManagedSession \<Rightarrow> string \<Rightarrow> int \<Rightarrow> int option \<Rightarrow> string option
     \<Rightarrow> error + SetBreakpointByUrlResponse \<Rightarrow> error + ManagedSession \<times> BreakpointInfo" where
  "setBreakpoint session url lineNumber columnNumber condition reply =
     (case ensureConnected (cdpClient session) of
        Inl e \<Rightarrow> Inl e
      | Inr _ \<Rightarrow>
          (case reply of
             Inl e \<Rightarrow> Inl e
           | Inr response \<Rightarrow>
               (let breakpointInfo =
                      \<lparr> bp_id = sbr_breakpointId response, bp_url = url,
                        bp_lineNumber = lineNumber, bp_columnNumber = columnNumber,
                        bp_condition = condition, bp_enabled = True,
                        bp_resolvedLocations = map toBreakpointLocation (sbr_locations response) \<rparr>
                in Inr (session\<lparr> breakpoints :=
                           AList.update (sbr_breakpointId response) breakpointInfo
                             (breakpoints session) \<rparr>,
                        breakpointInfo))))"

definition removeBreakpoint ::
  "ManagedSession \<Rightarrow> string \<Rightarrow> error option \<Rightarrow> error + ManagedSession" where
  "removeBreakpoint session breakpointId reply =
     (if map_of (breakpoints session) breakpointId = None
      then Inl (DebuggerError BREAKPOINT_NOT_FOUND (''Breakpoint '' @ breakpointId @ '' not found''))
      else
        (case ensureConnected (cdpClient session) of
           Inl e \<Rightarrow> Inl e
         | Inr _ \<Rightarrow>
             (case reply of
                Some e \<Rightarrow> Inl e
              | None \<Rightarrow>
                  Inr (session\<lparr> breakpoints := AList.delete breakpointId (breakpoints session) \<rparr>))))"

definition listBreakpoints :: "ManagedSession \<Rightarrow> BreakpointInfo list" where
  "listBreakpoints session = map snd (breakpoints session)"

subsection \<open>Resume\<close>

text \<open>
  \<^verbatim>\<open>resume\<close> gives the session after the call and the error it threw, if any. \<open>during\<close>
  are the events handled between the sending of the command and the statement after the
  \<^verbatim>\<open>await\<close>; \<open>reply\<close> is the error the command rejects with, if it does.
\<close>

definition resume ::
  "Platform \<Rightarrow> ManagedSession \<Rightarrow> CDPEvent list \<Rightarrow> error option
     \<Rightarrow> ManagedSession \<times> error option" where
  "resume P session during reply =
     (if state session = PAUSED then
        (case ensureConnected (cdpClient session) of
           Inl e \<Rightarrow> (session, Some e)
         | Inr _ \<Rightarrow> (handle_events P session during, reply))
      else if state session = CONNECTED then
        (case ensureConnected (cdpClient session) of
           Inl e \<Rightarrow> (session, Some e)
         | Inr _ \<Rightarrow>
             (case reply of
                Some e \<Rightarrow> (handle_events P session during, Some e)
              | None \<Rightarrow> ((handle_events P session during)\<lparr> state := RUNNING \<rparr>, None)))
      else (session,
            Some (DebuggerError SESSION_INVALID_STATE
                    (''Session '' @ ms_id session @ '' is not paused or waiting for debugger''))))"

text \<open>
  \<^verbatim>\<open>destroySession\<close>, as far as the session object goes: the client is closed (an error
  of \<^verbatim>\<open>close\<close> is ignored and leaves the client as it is) and the source maps are
  cleared. The registry loses the identifier.
\<close>

definition destroySession_object :: "ManagedSession \<Rightarrow> bool \<Rightarrow> ManagedSession" where
  "destroySession_object session closeFails =
     session\<lparr> cdpClient := (if closeFails then cdpClient session
                              else \<lparr> scripts = [], connected = False \<rparr>),
              sourceMapManager := smm_clear (sourceMapManager session) \<rparr>"

definition destroySession :: "Sessions \<Rightarrow> string \<Rightarrow> error + Sessions" where
  "destroySession sessions sessionId =
     (case getSession sessions sessionId of
        Inl e \<Rightarrow> Inl e
      | Inr session \<Rightarrow> Inr (AList.delete sessionId sessions))"

subsection \<open>Runs of a session\<close>

text \<open>
  What can happen to a session object once it exists: an event is handled, or one of the
  operations that write to the session is called. Every other operation reads the
  session and sends commands, and leaves the object as it is.
\<close>

datatype Step =
    Event CDPEvent
  | SetBreakpoint string int "int option" "string option" "error + SetBreakpointByUrlResponse"
  | RemoveBreakpoint string "error option"
  | Resume "CDPEvent list" "error option"
  | Destroy bool

fun step :: "Platform \<Rightarrow> ManagedSession \<Rightarrow> Step \<Rightarrow> ManagedSession" where
  "step P session (Event e) = handle_event P session e"
| "step P session (SetBreakpoint url lineNumber columnNumber condition reply) =
     (case setBreakpoint session url lineNumber columnNumber condition reply of
        Inl e \<Rightarrow> session
      | Inr r \<Rightarrow> fst r)"
| "step P session (RemoveBreakpoint breakpointId reply) =
     (case removeBreakpoint session breakpointId reply of
        Inl e \<Rightarrow> session
      | Inr session' \<Rightarrow> session')"
| "step P session (Resume during reply) = fst (resume P session during reply)"
| "step P session (Destroy closeFails) = destroySession_object session closeFails"

definition run :: "Platform \<Rightarrow> ManagedSession \<Rightarrow> Step list \<Rightarrow> ManagedSession" where
  "run P session steps = foldl (step P) session steps"

subsection \<open>Scope variables and variable assignment\<close>

text \<open>An array read \<^verbatim>\<open>xs[i]\<close>: \<^verbatim>\<open>undefined\<close> outside the array.\<close>

definition element_at :: "'a list \<Rightarrow> int \<Rightarrow> 'a option" where
  "element_at xs i = (if 0 \<le> i \<and> i < int (length xs) then Some (xs ! nat i) else None)"

text \<open>
  Both operations return the commands they sent, in order, next to their result. The
  replies of the target are arguments: \<open>reply\<close> of \<^verbatim>\<open>Runtime.getProperties\<close>, \<open>evalReply\<close>
  of \<^verbatim>\<open>Debugger.evaluateOnCallFrame\<close>, \<open>setReply\<close> of \<^verbatim>\<open>Debugger.setVariableValue\<close>.
\<close>

definition getScopeVariables ::
  "ManagedSession \<Rightarrow> string \<Rightarrow> int \<Rightarrow> error + PropertyDescriptor list
     \<Rightarrow> Command list \<times> (error + PropertyDescriptor list)" where
  "getScopeVariables session callFrameId scopeIndex reply =
     (case ensurePaused session of
        Inl e \<Rightarrow> ([], Inl e)
      | Inr _ \<Rightarrow>
          (case (case pausedState session of
                   None \<Rightarrow> None
                 | Some ps \<Rightarrow> find (\<lambda>f. cf_callFrameId f = callFrameId) (ps_callFrames ps)) of
             None \<Rightarrow>
               ([], Inl (DebuggerError INVALID_PARAMETERS
                           (''Call frame '' @ callFrameId @ '' not found'')))
           | Some callFrame \<Rightarrow>
               (case element_at (cf_scopeChain callFrame) scopeIndex of
                  None \<Rightarrow>
                    ([], Inl (DebuggerError INVALID_PARAMETERS
                                (''Scope at index '' @ show_int scopeIndex @
                                 '' not found or has no object ID'')))
                | Some scope \<Rightarrow>
                    (if \<not> truthy (ro_objectId (sc_object scope)) then
                       ([], Inl (DebuggerError INVALID_PARAMETERS
                                   (''Scope at index '' @ show_int scopeIndex @
                                    '' not found or has no object ID'')))
                     else
                       (case ensureConnected (cdpClient session) of
                          Inl e \<Rightarrow> ([], Inl e)
                        | Inr _ \<Rightarrow>
                            ([GetProperties (the (ro_objectId (sc_object scope))) True], reply))))))"

text \<open>The \<^verbatim>\<open>CallArgument\<close> that \<^verbatim>\<open>setVariableValue\<close> builds from the evaluated object.\<close>

definition callArgument :: "RemoteObject \<Rightarrow> CallArgument" where
  "callArgument result =
     (if truthy (ro_objectId result) then
        \<lparr> ca_value = None, ca_unserializableValue = None, ca_objectId = ro_objectId result \<rparr>
      else if ro_value result \<noteq> None then
        \<lparr> ca_value = ro_value result, ca_unserializableValue = None, ca_objectId = None \<rparr>
      else if truthy (ro_unserializableValue result) then
        \<lparr> ca_value = None, ca_unserializableValue = ro_unserializableValue result,
          ca_objectId = None \<rparr>
      else \<lparr> ca_value = None, ca_unserializableValue = None, ca_objectId = None \<rparr>)"

definition setVariableValue ::
  "ManagedSession \<Rightarrow> string \<Rightarrow> int \<Rightarrow> string \<Rightarrow> string \<Rightarrow> error + EvaluateResponse
     \<Rightarrow> error option \<Rightarrow> Command list \<times> (error + unit)" where
  "setVariableValue session callFrameId scopeIndex variableName newValue evalReply setReply =
     (case ensurePaused session of
        Inl e \<Rightarrow> ([], Inl e)
      | Inr _ \<Rightarrow>
          (case ensureConnected (cdpClient session) of
             Inl e \<Rightarrow> ([], Inl e)
           | Inr _ \<Rightarrow>
               (case evalReply of
                  Inl e \<Rightarrow> ([EvaluateOnCallFrame callFrameId newValue False], Inl e)
                | Inr evalResult \<Rightarrow>
                    (case er_exceptionDetails evalResult of
                       Some details \<Rightarrow>
                         ([EvaluateOnCallFrame callFrameId newValue False],
                          Inl (DebuggerError PROTOCOL_ERROR
                                 (''Failed to evaluate new value: '' @ ed_text details)))
                     | None \<Rightarrow>
                         ([EvaluateOnCallFrame callFrameId newValue False,
                           SetVariableValue scopeIndex variableName
                             (callArgument (er_result evalResult)) callFrameId],
                          (case setReply of Some e \<Rightarrow> Inl e | None \<Rightarrow> Inr ()))))))"

text \<open>
  The argument as the specification orders it: the object id, else the unserializable
  form, else the value. This definition follows the specification, not the source; it
  is there to be compared with \<^const>\<open>callArgument\<close>.
\<close>

definition spec_callArgument :: "RemoteObject \<Rightarrow> CallArgument" where
  "spec_callArgument result =
     (if ro_objectId result \<noteq> None then
        \<lparr> ca_value = None, ca_unserializableValue = None, ca_objectId = ro_objectId result \<rparr>
      else if ro_unserializableValue result \<noteq> None then
        \<lparr> ca_value = None, ca_unserializableValue = ro_unserializableValue result,
          ca_objectId = None \<rparr>
      else \<lparr> ca_value = ro_value result, ca_unserializableValue = None, ca_objectId = None \<rparr>)"

subsection \<open>Original locations\<close>

text \<open>
  The projected position of \<^verbatim>\<open>getOriginalLocation\<close> and of an enriched call frame; the
  last field is called \<^verbatim>\<open>name\<close> in the former and \<^verbatim>\<open>functionName\<close> in the latter.
\<close>

record OriginalPosition =
  op_sourceUrl :: string
  op_lineNumber :: int
  op_columnNumber :: int
  op_name :: "string option"

definition toOriginalPosition :: "OriginalLocation \<Rightarrow> OriginalPosition" where
  "toOriginalPosition original =
     \<lparr> op_sourceUrl = ol_source original,
       op_lineNumber = (case ol_line original of None \<Rightarrow> 0 | Some l \<Rightarrow> l),
       op_columnNumber = (case ol_column original of None \<Rightarrow> 0 | Some c \<Rightarrow> c),
       op_name = ol_name original \<rparr>"

record OriginalLocationResult =
  hasSourceMap_flag :: bool
  original :: "OriginalPosition option"

text \<open>
  \<^verbatim>\<open>getOriginalLocation\<close> of the session manager. The tool handler hands it any two
  numbers; an error of the source-map manager leaves the call as it is.
\<close>

definition getOriginalLocation ::
  "ManagedSession \<Rightarrow> string \<Rightarrow> int \<Rightarrow> int \<Rightarrow> error + OriginalLocationResult" where
  "getOriginalLocation session scriptId lineNumber columnNumber =
     (if \<not> hasSourceMap (sourceMapManager session) scriptId
      then Inr \<lparr> hasSourceMap_flag = False, original = None \<rparr>
      else
        (case smm_getOriginalLocation (sourceMapManager session) scriptId lineNumber columnNumber of
           Inl e \<Rightarrow> Inl e
         | Inr None \<Rightarrow> Inr \<lparr> hasSourceMap_flag = True, original = None \<rparr>
         | Inr (Some orig) \<Rightarrow>
             Inr \<lparr> hasSourceMap_flag = True, original = Some (toOriginalPosition orig) \<rparr>))"

record EnrichedCallFrame =
  ecf_callFrameId :: string
  ecf_functionName :: string
  ecf_generatedLocation :: BreakpointLocation
  ecf_originalLocation :: "OriginalPosition option"
  ecf_scopeChain :: "Scope list"
  ecf_this :: RemoteObject

text \<open>The callback of the \<^verbatim>\<open>map\<close> in \<^verbatim>\<open>enrichCallFrames\<close>, for one frame.\<close>

definition enrichCallFrame :: "ManagedSession \<Rightarrow> CallFrame \<Rightarrow> error + EnrichedCallFrame" where
  "enrichCallFrame session frame =
     (case smm_getOriginalLocation (sourceMapManager session)
             (loc_scriptId (cf_location frame))
             (loc_lineNumber (cf_location frame) + 1)
             (columnOrZero (loc_columnNumber (cf_location frame))) of
        Inl e \<Rightarrow> Inl e
      | Inr found \<Rightarrow>
          Inr \<lparr> ecf_callFrameId = cf_callFrameId frame,
                ecf_functionName = cf_functionName frame,
                ecf_generatedLocation = toBreakpointLocation (cf_location frame),
                ecf_originalLocation =
                  (case found of None \<Rightarrow> None | Some orig \<Rightarrow> Some (toOriginalPosition orig)),
                ecf_scopeChain = cf_scopeChain frame,
                ecf_this = cf_this frame \<rparr>)"

text \<open>\<^verbatim>\<open>Array.prototype.map\<close> with a callback that may throw: the first throw ends it.\<close>

fun map_throwing :: "('a \<Rightarrow> error + 'b) \<Rightarrow> 'a list \<Rightarrow> error + 'b list" where
  "map_throwing f [] = Inr []"
| "map_throwing f (x # xs) =
     (case f x of
        Inl e \<Rightarrow> Inl e
      | Inr y \<Rightarrow> (case map_throwing f xs of Inl e \<Rightarrow> Inl e | Inr ys \<Rightarrow> Inr (y # ys)))"

definition enrichCallFrames :: "ManagedSession \<Rightarrow> error + EnrichedCallFrame list" where
  "enrichCallFrames session =
     (case pausedState session of
        None \<Rightarrow> Inr []
      | Some ps \<Rightarrow> map_throwing (enrichCallFrame session) (ps_callFrames ps))"

subsection \<open>Scripts\<close>

record ScriptListing =
  sl_scriptId :: string
  sl_url :: string
  sl_sourceMapUrl :: "string option"
  sl_originalSources :: "string list option"
  sl_isInternal :: bool

text \<open>The flag \<^verbatim>\<open>isInternal\<close> that the filter callback of \<^verbatim>\<open>listScripts\<close> computes.\<close>

definition filter_isInternal :: "ScriptInfo \<Rightarrow> bool" where
  "filter_isInternal script =
     (includes_str (si_url script) ''node_modules'' \<or>
      startsWith (si_url script) ''node:'' \<or>
      startsWith (si_url script) ''internal/'' \<or>
      si_url script = [])"

text \<open>The expression of the property \<^verbatim>\<open>isInternal\<close> in the map callback.\<close>

definition reported_isInternal :: "ScriptInfo \<Rightarrow> bool" where
  "reported_isInternal script =
     (includes_str (si_url script) ''node_modules'' \<or>
      startsWith (si_url script) ''node:'' \<or>
      startsWith (si_url script) ''internal/'')"

definition listScripts :: "ManagedSession \<Rightarrow> bool \<Rightarrow> ScriptListing list" where
  "listScripts session includeInternal =
     map (\<lambda>script.
           \<lparr> sl_scriptId = si_scriptId script,
             sl_url = si_url script,
             sl_sourceMapUrl = si_sourceMapUrl script,
             sl_originalSources = getOriginalSources (sourceMapManager session) (si_scriptId script),
             sl_isInternal = reported_isInternal script \<rparr>)
         (filter (\<lambda>script. if includeInternal then True else \<not> filter_isInternal script)
                 (getAllScripts (cdpClient session)))"

section \<open>The session manager with a server configuration\<close>

text \<open>
  Of \<^verbatim>\<open>ServerConfig\<close> the session manager reads three fields itself; the others are
  timeouts and retry counts handed to the WebSocket client, and logging options.
\<close>

record ServerConfig =
  allowedHosts :: "string list"
  requireConfirmationForRemote :: bool
  maxConcurrentSessions :: int

definition DEFAULT_CONFIG :: ServerConfig where
  "DEFAULT_CONFIG =
     \<lparr> allowedHosts = [''localhost'', ''127.0.0.1'', ''::1''],
       requireConfirmationForRemote = True,
       maxConcurrentSessions = 10 \<rparr>"

text \<open>
  What \<^verbatim>\<open>new URL(url)\<close> gives: \<open>None\<close> when the constructor throws, else the two
  properties that \<^verbatim>\<open>validateTargetUrl\<close> reads. The parser belongs to the platform and is
  an argument of the functions below.
\<close>

record ParsedUrl =
  url_protocol :: string
  url_hostname :: string

type_synonym UrlParser = "string \<Rightarrow> ParsedUrl option"

definition validateTargetUrl :: "UrlParser \<Rightarrow> ServerConfig \<Rightarrow> string \<Rightarrow> error + unit" where
  "validateTargetUrl parseUrl config url =
     (case parseUrl url of
        None \<Rightarrow> Inl (DebuggerError INVALID_PARAMETERS (''Invalid URL: '' @ url))
      | Some parsed \<Rightarrow>
          (if url_protocol parsed \<noteq> ''ws:'' \<and> url_protocol parsed \<noteq> ''wss:'' then
             Inl (DebuggerError INVALID_PARAMETERS
                    (''URL must use ws:// or wss:// scheme: '' @ url))
           else if \<not> (url_hostname parsed \<in> set (allowedHosts config)) \<and>
                   requireConfirmationForRemote config then
             Inl (DebuggerError INVALID_PARAMETERS
                    (''Remote host '' @ [CHR 0x22] @ url_hostname parsed @ [CHR 0x22] @
                     '' not in allowed hosts list. Add to configuration to allow.''))
           else Inr ()))"

record wk_CallFrame =
  wcf_callFrameId :: string
  wcf_functionName :: string
  wcf_scriptId :: string
  wcf_url :: string
  wcf_lineNumber :: int
  wcf_columnNumber :: int
  wcf_thisObject :: RemoteObject
  wcf_scopeChain :: "Scope list"

record wk_PausedState =
  wps_reason :: string
  wps_callFrames :: "wk_CallFrame list"
  wps_asyncStackTrace :: "StackTrace option"
  wps_data :: "JsValue option"

record wk_BreakpointInfo =
  wbp_id :: string
  wbp_url :: string
  wbp_lineNumber :: int
  wbp_columnNumber :: "int option"
  wbp_condition :: "string option"
  wbp_enabled :: bool
  wbp_locations :: "BreakpointLocation list"

record wk_ScriptInfo =
  wsi_scriptId :: string
  wsi_url :: string
  wsi_startLine :: int
  wsi_startColumn :: int
  wsi_endLine :: int
  wsi_endColumn :: int
  wsi_sourceMapURL :: "string option"

text \<open>
  Of the WebSocket client the session keeps whether it is connected: \<^verbatim>\<open>sendCommand\<close>
  throws before sending when it is not.
\<close>

record DebugSession =
  ds_id :: string
  ds_name :: "string option"
  ds_targetUrl :: string
  ds_wsConnected :: bool
  ds_state :: SessionState
  ds_breakpoints :: "(string \<times> wk_BreakpointInfo) list"
  ds_scripts :: "(string \<times> wk_ScriptInfo) list"
  ds_pausedState :: "wk_PausedState option"
  ds_createdAt :: nat
  ds_lastActivityAt :: nat

datatype DebuggerEvent =
    Ev_paused wk_PausedState
  | Ev_resumed
  | Ev_scriptParsed wk_ScriptInfo
  | Ev_breakpointResolved string BreakpointLocation
  | Ev_disconnected "string option"

text \<open>
  \<^verbatim>\<open>handleSessionEvent\<close>, as far as the session object goes. The \<^verbatim>\<open>disconnected\<close> case
  also deletes the identifier of the session from the registry: see
  \<open>handleSessionEvent_registry\<close>. The client clears its own flag before it emits
  \<^verbatim>\<open>disconnected\<close>.
\<close>

fun handleSessionEvent :: "DebugSession \<Rightarrow> DebuggerEvent \<Rightarrow> DebugSession" where
  "handleSessionEvent session (Ev_paused d) =
     session\<lparr> ds_state := PAUSED, ds_pausedState := Some d \<rparr>"
| "handleSessionEvent session Ev_resumed =
     session\<lparr> ds_state := RUNNING, ds_pausedState := None \<rparr>"
| "handleSessionEvent session (Ev_scriptParsed d) =
     session\<lparr> ds_scripts := AList.update (wsi_scriptId d) d (ds_scripts session) \<rparr>"
| "handleSessionEvent session (Ev_breakpointResolved breakpointId location) =
     (case map_of (ds_breakpoints session) breakpointId of
        None \<Rightarrow> session
      | Some bp \<Rightarrow>
          session\<lparr> ds_breakpoints :=
            AList.update breakpointId (bp\<lparr> wbp_locations := [location] \<rparr>)
              (ds_breakpoints session) \<rparr>)"
| "handleSessionEvent session (Ev_disconnected reason) =
     session\<lparr> ds_wsConnected := False, ds_state := DISCONNECTED \<rparr>"

type_synonym wk_Sessions = "(string \<times> DebugSession) list"

fun handleSessionEvent_registry :: "wk_Sessions \<Rightarrow> string \<Rightarrow> DebuggerEvent \<Rightarrow> wk_Sessions" where
  "handleSessionEvent_registry sessions sessionId (Ev_disconnected reason) =
     AList.delete sessionId sessions"
| "handleSessionEvent_registry sessions sessionId e = sessions"

text \<open>
  \<^verbatim>\<open>connect\<close>. \<open>sessionId\<close> is the identifier \<^verbatim>\<open>uuidv4()\<close> returns, \<open>now\<close> the clock,
  \<open>during\<close> the events the client emits while \<^verbatim>\<open>wsClient.connect()\<close> is pending (the
  listener is added before), \<open>connectError\<close> the error that call rejects with, if it
  does.
\<close>

definition connect ::
  "UrlParser \<Rightarrow> ServerConfig \<Rightarrow> wk_Sessions \<Rightarrow> string \<Rightarrow> string option \<Rightarrow> string \<Rightarrow> nat
     \<Rightarrow> DebuggerEvent list \<Rightarrow> error option \<Rightarrow> wk_Sessions \<times> (error + DebugSession)" where
  "connect parseUrl config sessions url sessionName sessionId now during connectError =
     (case validateTargetUrl parseUrl config url of
        Inl e \<Rightarrow> (sessions, Inl e)
      | Inr _ \<Rightarrow>
          (if int (length sessions) \<ge> maxConcurrentSessions config then
             (sessions,
              Inl (DebuggerError MAX_SESSIONS_REACHED
                     (''Maximum concurrent sessions ('' @
                      show_int (maxConcurrentSessions config) @ '') reached'')))
           else
             (let session = \<lparr> ds_id = sessionId, ds_name = sessionName, ds_targetUrl = url,
                               ds_wsConnected = False, ds_state = CONNECTING,
                               ds_breakpoints = [], ds_scripts = [], ds_pausedState = None,
                               ds_createdAt = now, ds_lastActivityAt = now \<rparr>;
                  sessions' = foldl (\<lambda>r e. handleSessionEvent_registry r sessionId e) sessions during
              in case connectError of
                   None \<Rightarrow>
                     (let connectedSession =
                            (foldl handleSessionEvent (session\<lparr> ds_wsConnected := True \<rparr>) during)
                              \<lparr> ds_state := CONNECTED \<rparr>
                      in (AList.update sessionId connectedSession sessions', Inr connectedSession))
                 | Some e \<Rightarrow> (sessions', Inl e))))"

primrec state_name :: "SessionState \<Rightarrow> string" where
  "state_name CONNECTING = ''connecting''"
| "state_name CONNECTED = ''connected''"
| "state_name PAUSED = ''paused''"
| "state_name RUNNING = ''running''"
| "state_name DISCONNECTED = ''disconnected''"

text \<open>\<^verbatim>\<open>allowedStates.join(", ")\<close>.\<close>

fun join_names :: "SessionState list \<Rightarrow> string" where
  "join_names [] = []"
| "join_names [s] = state_name s"
| "join_names (s # rest) = state_name s @ '', '' @ join_names rest"

definition requireState :: "DebugSession \<Rightarrow> SessionState list \<Rightarrow> error + unit" where
  "requireState session allowedStates =
     (if ds_state session \<notin> set allowedStates then
        Inl (DebuggerError SESSION_INVALID_STATE
               (''Operation not allowed in state '' @ [CHR 0x22] @ state_name (ds_state session) @
                [CHR 0x22] @ ''. Required: '' @ join_names allowedStates))
      else Inr ())"

text \<open>\<^verbatim>\<open>sendCommand\<close> of the WebSocket client, before anything is sent.\<close>

definition wk_ensureConnected :: "DebugSession \<Rightarrow> error + unit" where
  "wk_ensureConnected session =
     (if \<not> ds_wsConnected session
      then Inl (DebuggerError CONNECTION_FAILED ''Not connected to debugger'')
      else Inr ())"

record ScopeVariable =
  sv_name :: string
  sv_value :: RemoteObject

text \<open>
  \<^verbatim>\<open>getScopeVariables\<close> of this manager: the commands it sent and its result. The reply
  lists what \<^verbatim>\<open>Runtime.getProperties\<close> answered, each entry a name and an optional
  value (the other fields of a descriptor are not read).
\<close>

definition wk_getScopeVariables ::
  "DebugSession \<Rightarrow> string \<Rightarrow> int \<Rightarrow> error + PropertyDescriptor list
     \<Rightarrow> Command list \<times> (error + ScopeVariable list)" where
  "wk_getScopeVariables session callFrameId scopeIndex reply =
     (case requireState session [PAUSED] of
        Inl e \<Rightarrow> ([], Inl e)
      | Inr _ \<Rightarrow>
          (case ds_pausedState session of
             None \<Rightarrow>
               ([], Inl (DebuggerError SESSION_INVALID_STATE
                           ''Session is not paused; cannot retrieve scope variables''))
           | Some ps \<Rightarrow>
               (case find (\<lambda>f. wcf_callFrameId f = callFrameId) (wps_callFrames ps) of
                  None \<Rightarrow>
                    ([], Inl (DebuggerError INVALID_PARAMETERS
                                (''Call frame not found: '' @ callFrameId)))
                | Some callFrame \<Rightarrow>
                    (if scopeIndex < 0 \<or> scopeIndex \<ge> int (length (wcf_scopeChain callFrame)) then
                       ([], Inl (DebuggerError INVALID_PARAMETERS
                                   (''Invalid scope index: '' @ show_int scopeIndex)))
                     else if \<not> truthy (ro_objectId (sc_object (wcf_scopeChain callFrame ! nat scopeIndex)))
                     then ([], Inr [])
                     else
                       (case wk_ensureConnected session of
                          Inl e \<Rightarrow> ([], Inl e)
                        | Inr _ \<Rightarrow>
                            ([GetProperties
                                (the (ro_objectId (sc_object (wcf_scopeChain callFrame ! nat scopeIndex))))
                                True],
                             (case reply of
                                Inl e \<Rightarrow> Inl e
                              | Inr result \<Rightarrow>
                                  Inr (map (\<lambda>prop. \<lparr> sv_name = pd_name prop,
                                                     sv_value = the (pd_value prop) \<rparr>)
                                         (filter (\<lambda>prop. pd_value prop \<noteq> None) result)))))))))"

text \<open>
  \<^verbatim>\<open>setVariableValue\<close> of this manager: the evaluation reply is read for its
  \<^verbatim>\<open>result.value\<close> only.
\<close>

definition wk_setVariableValue ::
  "DebugSession \<Rightarrow> string \<Rightarrow> int \<Rightarrow> string \<Rightarrow> string \<Rightarrow> error + EvaluateResponse
     \<Rightarrow> error option \<Rightarrow> Command list \<times> (error + unit)" where
  "wk_setVariableValue session callFrameId scopeIndex variableName newValue evalReply setReply =
     (case requireState session [PAUSED] of
        Inl e \<Rightarrow> ([], Inl e)
      | Inr _ \<Rightarrow>
          (case wk_ensureConnected session of
             Inl e \<Rightarrow> ([], Inl e)
           | Inr _ \<Rightarrow>
               (case evalReply of
                  Inl e \<Rightarrow> ([EvaluateOnCallFrame callFrameId newValue False], Inl e)
                | Inr evalResult \<Rightarrow>
                    ([EvaluateOnCallFrame callFrameId newValue False,
                      SetVariableValue scopeIndex variableName
                        \<lparr> ca_value = ro_value (er_result evalResult),
                          ca_unserializableValue = None, ca_objectId = None \<rparr>
                        callFrameId],
                     (case setReply of Some e \<Rightarrow> Inl e | None \<Rightarrow> Inr ())))))"

section \<open>Predicates of the properties\<close>

text \<open>
  A step stores a record under \<open>breakpointId\<close> when it is a \<^verbatim>\<open>setBreakpoint\<close> whose reply
  carries that identifier.
\<close>

fun stores_breakpoint :: "Step \<Rightarrow> string \<Rightarrow> bool" where
  "stores_breakpoint (SetBreakpoint url lineNumber columnNumber condition (Inr response)) breakpointId =
     (sbr_breakpointId response = breakpointId)"
| "stores_breakpoint s breakpointId = False"

text \<open>Every record of the breakpoint table is stored under its own identifier.\<close>

definition keyed_by_id :: "ManagedSession \<Rightarrow> bool" where
  "keyed_by_id session = (\<forall>entry \<in> set (breakpoints session). bp_id (snd entry) = fst entry)"

text \<open>Invariant I3: the session is in state \<open>PAUSED\<close> exactly when it holds a paused snapshot.\<close>

definition I3 :: "ManagedSession \<Rightarrow> bool" where
  "I3 session = ((state session = PAUSED) = (pausedState session \<noteq> None))"

fun is_paused :: "CDPEvent \<Rightarrow> bool" where
  "is_paused (Paused params) = True"
| "is_paused e = False"

text \<open>
  A step loses a pause when it is a \<open>resume\<close> on a connected session in state
  \<open>CONNECTED\<close> whose command succeeds, and the events handled while it waited for the
  acknowledgement left a snapshot: the statement after the \<^verbatim>\<open>await\<close> then writes
  \<open>RUNNING\<close> over the state.
\<close>

fun loses_pause :: "Platform \<Rightarrow> ManagedSession \<Rightarrow> Step \<Rightarrow> bool" where
  "loses_pause P session (Resume during reply) =
     (state session = CONNECTED \<and> connected (cdpClient session) \<and> reply = None \<and>
      pausedState (handle_events P session during) \<noteq> None)"
| "loses_pause P session s = False"

text \<open>A run none of whose steps loses a pause.\<close>

fun keeps_pauses :: "Platform \<Rightarrow> ManagedSession \<Rightarrow> Step list \<Rightarrow> bool" where
  "keeps_pauses P session [] = True"
| "keeps_pauses P session (s # steps) =
     (\<not> loses_pause P session s \<and> keeps_pauses P (step P session s) steps)"

section \<open>Concrete data for instances\<close>

definition ex_object :: RemoteObject where
  "ex_object = \<lparr> ro_type = ''object'', ro_objectId = Some ''obj-1'', ro_value = None,
                 ro_unserializableValue = None \<rparr>"

definition ex_frame :: CallFrame where
  "ex_frame = \<lparr> cf_callFrameId = ''frame-1'', cf_functionName = ''test'',
                cf_location = \<lparr> loc_scriptId = ''script-1'', loc_lineNumber = 10,
                                loc_columnNumber = Some 0 \<rparr>,
                cf_scopeChain = [\<lparr> sc_type = ''local'', sc_object = ex_object \<rparr>],
                cf_this = \<lparr> ro_type = ''object'', ro_objectId = None, ro_value = None,
                            ro_unserializableValue = None \<rparr> \<rparr>"

definition ex_paused :: PausedState where
  "ex_paused = \<lparr> ps_reason = ''breakpoint'', ps_callFrames = [ex_frame],
                 ps_asyncStackTrace = None, ps_data = None, ps_hitBreakpoints = None \<rparr>"

definition ex_script :: "string \<Rightarrow> string \<Rightarrow> ScriptInfo" where
  "ex_script scriptId url =
     \<lparr> si_scriptId = scriptId, si_url = url, si_sourceMapUrl = None, si_startLine = 0,
       si_startColumn = 0, si_endLine = 100, si_endColumn = 0, si_hash = ''abc123'',
       si_isModule = None, si_length = None \<rparr>"

text \<open>A consumer that answers every query with the queried position itself.\<close>

definition ex_consumer :: SourceMapConsumer where
  "ex_consumer =
     \<lparr> smc_mappings =
         (\<lambda>line column. \<lparr> mp_source = Some ''src/a.ts'', mp_line = Some line,
                           mp_column = Some column, mp_name = None \<rparr>),
       smc_sources = [''src/a.ts''] \<rparr>"

definition ex_session :: ManagedSession where
  "ex_session =
     \<lparr> ms_id = ''test-session-id'', ms_name = None, targetUrl = ''ws://localhost:9229/test'',
       state = CONNECTED,
       cdpClient = \<lparr> scripts = [(''script-1'', ex_script ''script-1'' ''file:///test.js''),
                                 (''script-empty'', ex_script ''script-empty'' [])],
                     connected = True \<rparr>,
       sourceMapManager = \<lparr> consumers = [(''script-1'', ex_consumer)], sourceMapUrls = [],
                            originalSources = [(''script-1'', [''src/a.ts''])] \<rparr>,
       breakpoints = [], pausedState = None, createdAt = 0 \<rparr>"

definition ex_paused_session :: ManagedSession where
  "ex_paused_session = ex_session\<lparr> state := PAUSED, pausedState := Some ex_paused \<rparr>"

definition ex_reply :: SetBreakpointByUrlResponse where
  "ex_reply = \<lparr> sbr_breakpointId = ''bp-1'',
                sbr_locations = [\<lparr> loc_scriptId = ''s-1'', loc_lineNumber = 10,
                                   loc_columnNumber = Some 0 \<rparr>] \<rparr>"

definition ex_platform :: Platform where
  "ex_platform =
     \<lparr> base64_decode = (\<lambda>s. if s = ''e30='' then ''{}'' else []),
       json_parse = (\<lambda>s. if s = ''{}'' then Some \<lparr> rsm_version = 3, rsm_sources = [],
                                                  rsm_mappings = [] \<rparr> else None),
       new_SourceMapConsumer = (\<lambda>raw. Some (ex_consumer\<lparr> smc_sources := rsm_sources raw \<rparr>)),
       read_file = (\<lambda>path. None),
       http_get = (\<lambda>url. None),
       url_resolve = (\<lambda>base rel. None) \<rparr>"

definition ex_wk_breakpoint :: wk_BreakpointInfo where
  "ex_wk_breakpoint =
     \<lparr> wbp_id = ''bp-1'', wbp_url = ''file:///a.js'', wbp_lineNumber = 10,
       wbp_columnNumber = None, wbp_condition = None, wbp_enabled = True,
       wbp_locations = [\<lparr> bl_scriptId = ''s-1'', bl_lineNumber = 10, bl_columnNumber = 0 \<rparr>] \<rparr>"

definition ex_wk_frame :: wk_CallFrame where
  "ex_wk_frame =
     \<lparr> wcf_callFrameId = ''frame-1'', wcf_functionName = ''test'', wcf_scriptId = ''s-1'',
       wcf_url = ''file:///a.js'', wcf_lineNumber = 10, wcf_columnNumber = 0,
       wcf_thisObject = \<lparr> ro_type = ''object'', ro_objectId = None, ro_value = None,
                          ro_unserializableValue = None \<rparr>,
       wcf_scopeChain = [\<lparr> sc_type = ''local'', sc_object = ex_object \<rparr>] \<rparr>"

definition ex_wk_session :: DebugSession where
  "ex_wk_session =
     \<lparr> ds_id = ''sid-1'', ds_name = None, ds_targetUrl = ''ws://localhost:9229/t'',
       ds_wsConnected = True, ds_state = PAUSED,
       ds_breakpoints = [(''bp-1'', ex_wk_breakpoint)], ds_scripts = [],
       ds_pausedState = Some \<lparr> wps_reason = ''breakpoint'', wps_callFrames = [ex_wk_frame],
                               wps_asyncStackTrace = None, wps_data = None \<rparr>,
       ds_createdAt = 0, ds_lastActivityAt = 0 \<rparr>"

definition ex_number :: RemoteObject where
  "ex_number = \<lparr> ro_type = ''number'', ro_objectId = None, ro_value = Some (JsNumber 42),
                 ro_unserializableValue = None \<rparr>"

text \<open>The reply to an evaluation that threw: the error object and the exception details.\<close>

definition ex_thrown :: RemoteObject where
  "ex_thrown = \<lparr> ro_type = ''object'', ro_objectId = Some ''err-1'', ro_value = None,
                 ro_unserializableValue = None \<rparr>"

definition ex_exception :: ExceptionDetails where
  "ex_exception = \<lparr> ed_text = ''ReferenceError: invalid is not defined'',
                    ed_lineNumber = 1, ed_columnNumber = 0 \<rparr>"

definition ex_properties :: "PropertyDescriptor list" where
  "ex_properties =
     [\<lparr> pd_name = ''x'', pd_value = Some ex_number, pd_writable = Some True,
        pd_configurable = True, pd_enumerable = True \<rparr>,
      \<lparr> pd_name = ''y'', pd_value = None, pd_writable = None,
        pd_configurable = True, pd_enumerable = False \<rparr>]"

definition ex_manager :: SourceMapManager where
  "ex_manager = \<lparr> consumers = [], sourceMapUrls = [], originalSources = [] \<rparr>"

text \<open>What \<^verbatim>\<open>new URL\<close> gives on the strings of the instances below; it throws on the rest.\<close>

definition ex_parseUrl :: UrlParser where
  "ex_parseUrl url =
     (if url = ''ws://localhost:9229/t''
        then Some \<lparr> url_protocol = ''ws:'', url_hostname = ''localhost'' \<rparr>
      else if url = ''ws://remote.example:9229/devtools''
        then Some \<lparr> url_protocol = ''ws:'', url_hostname = ''remote.example'' \<rparr>
      else if url = ''http://localhost:9229/t''
        then Some \<lparr> url_protocol = ''http:'', url_hostname = ''localhost'' \<rparr>
      else None)"

definition ex_full_config :: ServerConfig where
  "ex_full_config = DEFAULT_CONFIG\<lparr> maxConcurrentSessions := 1 \<rparr>"

section \<open>Properties\<close>

subsection \<open>Scripts\<close>

lemma startsWith_Nil [simp]: "startsWith [] (c # cs) = False"
  by (simp add: startsWith_def)

text \<open>
  C10. A script record whose URL is the empty string satisfies the predicate of the
  filter and not the reported flag: it is never listed when \<open>includeInternal\<close> is
  false, and when \<open>includeInternal\<close> is true it is listed with \<open>isInternal = False\<close>.
\<close>

theorem listScripts_empty_url:
  assumes "script \<in> set (getAllScripts (cdpClient session))"
      and "si_url script = []"
  shows "filter_isInternal script \<and> \<not> reported_isInternal script \<and>
         (\<forall>e \<in> set (listScripts session False). sl_url e \<noteq> []) \<and>
         \<lparr> sl_scriptId = si_scriptId script, sl_url = [],
           sl_sourceMapUrl = si_sourceMapUrl script,
           sl_originalSources = getOriginalSources (sourceMapManager session) (si_scriptId script),
           sl_isInternal = False \<rparr> \<in> set (listScripts session True)"
proof -
  have a: "filter_isInternal script"
    using assms(2) by (simp add: filter_isInternal_def)
  have b: "\<not> reported_isInternal script"
    using assms(2) by (simp add: reported_isInternal_def)
  have c: "\<forall>e \<in> set (listScripts session False). sl_url e \<noteq> []"
    by (auto simp add: listScripts_def filter_isInternal_def)
  have "\<lparr> sl_scriptId = si_scriptId script, sl_url = si_url script,
           sl_sourceMapUrl = si_sourceMapUrl script,
           sl_originalSources = getOriginalSources (sourceMapManager session) (si_scriptId script),
           sl_isInternal = reported_isInternal script \<rparr> \<in> set (listScripts session True)"
    using assms(1) by (simp add: listScripts_def image_iff) blast
  then have d: "\<lparr> sl_scriptId = si_scriptId script, sl_url = [],
           sl_sourceMapUrl = si_sourceMapUrl script,
           sl_originalSources = getOriginalSources (sourceMapManager session) (si_scriptId script),
           sl_isInternal = False \<rparr> \<in> set (listScripts session True)"
    using assms(2) b by simp
  from a b c d show ?thesis by blast
qed

theorem listScripts_empty_url_witness:
  "ex_script ''script-empty'' [] \<in> set (getAllScripts (cdpClient ex_session)) \<and>
   si_url (ex_script ''script-empty'' []) = [] \<and>
   map sl_scriptId (listScripts ex_session False) = [''script-1''] \<and>
   map (\<lambda>e. (sl_scriptId e, sl_isInternal e)) (listScripts ex_session True) =
     [(''script-1'', False), (''script-empty'', False)]"
proof -
  have m: "ex_script ''script-empty'' [] \<in> set (getAllScripts (cdpClient ex_session))"
    by (simp add: ex_session_def getAllScripts_def)
  have u: "si_url (ex_script ''script-empty'' []) = []"
    by (simp add: ex_script_def)
  note listScripts_empty_url [OF m u]
  moreover have "map sl_scriptId (listScripts ex_session False) = [''script-1'']"
    by (simp add: listScripts_def ex_session_def getAllScripts_def ex_script_def
        filter_isInternal_def startsWith_def)
  moreover have "map (\<lambda>e. (sl_scriptId e, sl_isInternal e)) (listScripts ex_session True) =
     [(''script-1'', False), (''script-empty'', False)]"
    by (simp add: listScripts_def ex_session_def getAllScripts_def ex_script_def
        reported_isInternal_def startsWith_def)
  ultimately show ?thesis using m u by blast
qed

subsection \<open>Line-number bases at the source-map boundary\<close>

lemma map_throwing_returns:
  "\<forall>x \<in> set xs. \<exists>y. f x = Inr y \<Longrightarrow>
   \<exists>ys. map_throwing f xs = Inr ys \<and> length ys = length xs"
proof (induction xs)
  case Nil
  show ?case by simp
next
  case (Cons x xs)
  then obtain y ys where "f x = Inr y" and "map_throwing f xs = Inr ys" and "length ys = length xs"
    by auto
  then show ?case by simp
qed

lemma enrichCallFrame_returns:
  assumes "0 \<le> loc_lineNumber (cf_location frame)"
      and "0 \<le> columnOrZero (loc_columnNumber (cf_location frame))"
  shows "\<exists>enriched. enrichCallFrame session frame = Inr enriched"
  using assms
  by (simp add: enrichCallFrame_def smm_getOriginalLocation_def originalPositionFor_def
      split: option.splits)

text \<open>
  C9. For a script whose source map is loaded, an enriched call frame queries the map
  at the frame's line plus one and at the frame's column as it is (0 when the frame has
  none), and keeps the frame's own line in its generated location;
  \<open>getOriginalLocation\<close> queries the map at the line and the column it was given. In
  both, the source, the line and the column of the answer are handed on as the map gave
  them (a missing line or column reads 0, an answer without a source gives no original
  location). The library refuses a queried line below 1 and a queried column below 0,
  and its error ends the call: for a frame that is a line below 0, for
  \<open>getOriginalLocation\<close> a line below 1. A snapshot whose frames have lines and columns
  from 0 on is enriched frame by frame without an error.
\<close>

theorem line_number_bases:
  assumes "map_of (consumers (sourceMapManager session)) scriptId = Some consumer"
  shows "(loc_scriptId (cf_location frame) = scriptId \<longrightarrow>
            enrichCallFrame session frame =
              (if loc_lineNumber (cf_location frame) + 1 < 1
                 then Inl (TargetError ''Line numbers must be >= 1'')
               else if (case loc_columnNumber (cf_location frame) of None \<Rightarrow> 0 | Some c \<Rightarrow> c) < 0
                 then Inl (TargetError ''Column numbers must be >= 0'')
               else
                 (let p = smc_mappings consumer
                            (loc_lineNumber (cf_location frame) + 1)
                            (case loc_columnNumber (cf_location frame) of None \<Rightarrow> 0 | Some c \<Rightarrow> c)
                  in Inr \<lparr> ecf_callFrameId = cf_callFrameId frame,
                           ecf_functionName = cf_functionName frame,
                           ecf_generatedLocation =
                             \<lparr> bl_scriptId = scriptId,
                               bl_lineNumber = loc_lineNumber (cf_location frame),
                               bl_columnNumber =
                                 (case loc_columnNumber (cf_location frame) of
                                    None \<Rightarrow> 0 | Some c \<Rightarrow> c) \<rparr>,
                           ecf_originalLocation =
                             (if truthy (mp_source p)
                              then Some \<lparr> op_sourceUrl = the (mp_source p),
                                          op_lineNumber = (case mp_line p of None \<Rightarrow> 0 | Some l \<Rightarrow> l),
                                          op_columnNumber = (case mp_column p of None \<Rightarrow> 0 | Some c \<Rightarrow> c),
                                          op_name = mp_name p \<rparr>
                              else None),
                           ecf_scopeChain = cf_scopeChain frame,
                           ecf_this = cf_this frame \<rparr>))) \<and>
         getOriginalLocation session scriptId lineNumber columnNumber =
           (if lineNumber < 1 then Inl (TargetError ''Line numbers must be >= 1'')
            else if columnNumber < 0 then Inl (TargetError ''Column numbers must be >= 0'')
            else
              (let p = smc_mappings consumer lineNumber columnNumber
               in Inr \<lparr> hasSourceMap_flag = True,
                        original =
                          (if truthy (mp_source p)
                           then Some \<lparr> op_sourceUrl = the (mp_source p),
                                       op_lineNumber = (case mp_line p of None \<Rightarrow> 0 | Some l \<Rightarrow> l),
                                       op_columnNumber = (case mp_column p of None \<Rightarrow> 0 | Some c \<Rightarrow> c),
                                       op_name = mp_name p \<rparr>
                           else None) \<rparr>)) \<and>
         (pausedState session = Some ps \<longrightarrow>
            enrichCallFrames session = map_throwing (enrichCallFrame session) (ps_callFrames ps)) \<and>
         (pausedState session = Some ps \<and>
          (\<forall>f \<in> set (ps_callFrames ps).
             0 \<le> loc_lineNumber (cf_location f) \<and>
             0 \<le> (case loc_columnNumber (cf_location f) of None \<Rightarrow> 0 | Some c \<Rightarrow> c)) \<longrightarrow>
            (\<exists>frames. enrichCallFrames session = Inr frames \<and>
                      length frames = length (ps_callFrames ps)))"
proof -
  have frame: "loc_scriptId (cf_location frame) = scriptId \<longrightarrow>
            enrichCallFrame session frame =
              (if loc_lineNumber (cf_location frame) + 1 < 1
                 then Inl (TargetError ''Line numbers must be >= 1'')
               else if (case loc_columnNumber (cf_location frame) of None \<Rightarrow> 0 | Some c \<Rightarrow> c) < 0
                 then Inl (TargetError ''Column numbers must be >= 0'')
               else
                 (let p = smc_mappings consumer
                            (loc_lineNumber (cf_location frame) + 1)
                            (case loc_columnNumber (cf_location frame) of None \<Rightarrow> 0 | Some c \<Rightarrow> c)
                  in Inr \<lparr> ecf_callFrameId = cf_callFrameId frame,
                           ecf_functionName = cf_functionName frame,
                           ecf_generatedLocation =
                             \<lparr> bl_scriptId = scriptId,
                               bl_lineNumber = loc_lineNumber (cf_location frame),
                               bl_columnNumber =
                                 (case loc_columnNumber (cf_location frame) of
                                    None \<Rightarrow> 0 | Some c \<Rightarrow> c) \<rparr>,
                           ecf_originalLocation =
                             (if truthy (mp_source p)
                              then Some \<lparr> op_sourceUrl = the (mp_source p),
                                          op_lineNumber = (case mp_line p of None \<Rightarrow> 0 | Some l \<Rightarrow> l),
                                          op_columnNumber = (case mp_column p of None \<Rightarrow> 0 | Some c \<Rightarrow> c),
                                          op_name = mp_name p \<rparr>
                              else None),
                           ecf_scopeChain = cf_scopeChain frame,
                           ecf_this = cf_this frame \<rparr>))"
    using assms
    by (simp add: enrichCallFrame_def smm_getOriginalLocation_def originalPositionFor_def
        toOriginalPosition_def toBreakpointLocation_def columnOrZero_def Let_def)
  have given: "getOriginalLocation session scriptId lineNumber columnNumber =
           (if lineNumber < 1 then Inl (TargetError ''Line numbers must be >= 1'')
            else if columnNumber < 0 then Inl (TargetError ''Column numbers must be >= 0'')
            else
              (let p = smc_mappings consumer lineNumber columnNumber
               in Inr \<lparr> hasSourceMap_flag = True,
                        original =
                          (if truthy (mp_source p)
                           then Some \<lparr> op_sourceUrl = the (mp_source p),
                                       op_lineNumber = (case mp_line p of None \<Rightarrow> 0 | Some l \<Rightarrow> l),
                                       op_columnNumber = (case mp_column p of None \<Rightarrow> 0 | Some c \<Rightarrow> c),
                                       op_name = mp_name p \<rparr>
                           else None) \<rparr>))"
    using assms
    by (simp add: getOriginalLocation_def smm_getOriginalLocation_def originalPositionFor_def
        hasSourceMap_def toOriginalPosition_def Let_def)
  have all: "pausedState session = Some ps \<longrightarrow>
            enrichCallFrames session = map_throwing (enrichCallFrame session) (ps_callFrames ps)"
    by (simp add: enrichCallFrames_def)
  have returns: "pausedState session = Some ps \<and>
          (\<forall>f \<in> set (ps_callFrames ps).
             0 \<le> loc_lineNumber (cf_location f) \<and>
             0 \<le> (case loc_columnNumber (cf_location f) of None \<Rightarrow> 0 | Some c \<Rightarrow> c)) \<longrightarrow>
            (\<exists>frames. enrichCallFrames session = Inr frames \<and>
                      length frames = length (ps_callFrames ps))"
  proof
    assume a: "pausedState session = Some ps \<and>
          (\<forall>f \<in> set (ps_callFrames ps).
             0 \<le> loc_lineNumber (cf_location f) \<and>
             0 \<le> (case loc_columnNumber (cf_location f) of None \<Rightarrow> 0 | Some c \<Rightarrow> c))"
    then have "\<forall>f \<in> set (ps_callFrames ps). \<exists>y. enrichCallFrame session f = Inr y"
      by (simp add: enrichCallFrame_returns columnOrZero_def)
    then have "\<exists>frames. map_throwing (enrichCallFrame session) (ps_callFrames ps) = Inr frames \<and>
                 length frames = length (ps_callFrames ps)"
      by (rule map_throwing_returns)
    with a show "\<exists>frames. enrichCallFrames session = Inr frames \<and>
                      length frames = length (ps_callFrames ps)"
      by (simp add: enrichCallFrames_def)
  qed
  from frame given all returns show ?thesis by blast
qed

theorem line_number_bases_witness:
  "map_of (consumers (sourceMapManager ex_paused_session)) ''script-1'' = Some ex_consumer \<and>
   pausedState ex_paused_session = Some ex_paused \<and>
   loc_lineNumber (cf_location ex_frame) = 10 \<and>
   enrichCallFrames ex_paused_session =
     Inr [\<lparr> ecf_callFrameId = ''frame-1'', ecf_functionName = ''test'',
            ecf_generatedLocation =
              \<lparr> bl_scriptId = ''script-1'', bl_lineNumber = 10, bl_columnNumber = 0 \<rparr>,
            ecf_originalLocation =
              Some \<lparr> op_sourceUrl = ''src/a.ts'', op_lineNumber = 11, op_columnNumber = 0,
                     op_name = None \<rparr>,
            ecf_scopeChain = cf_scopeChain ex_frame, ecf_this = cf_this ex_frame \<rparr>] \<and>
   getOriginalLocation ex_paused_session ''script-1'' 11 0 =
     Inr \<lparr> hasSourceMap_flag = True,
           original = Some \<lparr> op_sourceUrl = ''src/a.ts'', op_lineNumber = 11,
                             op_columnNumber = 0, op_name = None \<rparr> \<rparr> \<and>
   getOriginalLocation ex_paused_session ''script-1'' 0 0 =
     Inl (TargetError ''Line numbers must be >= 1'')"
proof -
  have c: "map_of (consumers (sourceMapManager ex_paused_session)) ''script-1'' = Some ex_consumer"
    by (simp add: ex_paused_session_def ex_session_def)
  have p: "pausedState ex_paused_session = Some ex_paused"
    by (simp add: ex_paused_session_def)
  have s: "loc_scriptId (cf_location ex_frame) = ''script-1''"
    by (simp add: ex_frame_def)
  have l: "loc_lineNumber (cf_location ex_frame) = 10"
    by (simp add: ex_frame_def)
  have f: "ps_callFrames ex_paused = [ex_frame]"
    by (simp add: ex_paused_def)
  have frame: "enrichCallFrame ex_paused_session ex_frame =
     Inr \<lparr> ecf_callFrameId = ''frame-1'', ecf_functionName = ''test'',
            ecf_generatedLocation =
              \<lparr> bl_scriptId = ''script-1'', bl_lineNumber = 10, bl_columnNumber = 0 \<rparr>,
            ecf_originalLocation =
              Some \<lparr> op_sourceUrl = ''src/a.ts'', op_lineNumber = 11, op_columnNumber = 0,
                     op_name = None \<rparr>,
            ecf_scopeChain = cf_scopeChain ex_frame, ecf_this = cf_this ex_frame \<rparr>"
    using line_number_bases [OF c, of ex_frame 11 0 ex_paused] s
    by (simp add: ex_consumer_def ex_frame_def)
  have all: "enrichCallFrames ex_paused_session =
     map_throwing (enrichCallFrame ex_paused_session) [ex_frame]"
    using line_number_bases [OF c, of ex_frame 11 0 ex_paused] p f by simp
  have given: "getOriginalLocation ex_paused_session ''script-1'' 11 0 =
     Inr \<lparr> hasSourceMap_flag = True,
           original = Some \<lparr> op_sourceUrl = ''src/a.ts'', op_lineNumber = 11,
                             op_columnNumber = 0, op_name = None \<rparr> \<rparr>"
    using line_number_bases [OF c, of ex_frame 11 0 ex_paused]
    by (simp add: ex_consumer_def)
  have refused: "getOriginalLocation ex_paused_session ''script-1'' 0 0 =
     Inl (TargetError ''Line numbers must be >= 1'')"
    using line_number_bases [OF c, of ex_frame 0 0 ex_paused] by simp
  from c p l frame all given refused show ?thesis by simp
qed

subsection \<open>Breakpoints: set, then remove\<close>

lemma set_update_subset: "set (AList.update k v al) \<subseteq> insert (k, v) (set al)"
  by (induction al) auto

lemma set_delete_subset: "set (AList.delete k al) \<subseteq> set al"
  by (auto simp add: AList.delete_eq)

lemma breakpoints_handle_event_absent:
  assumes "map_of (breakpoints session) i = None"
  shows "map_of (breakpoints (handle_event P session e)) i = None"
proof (cases e)
  case (BreakpointResolved k location)
  show ?thesis
  proof (cases "map_of (breakpoints session) k")
    case None
    with BreakpointResolved assms show ?thesis by simp
  next
    case (Some b)
    with assms have "i \<noteq> k" by auto
    with BreakpointResolved Some assms show ?thesis
      by (simp add: AList.update_conv')
  qed
next
  case (ScriptParsed params)
  with assms show ?thesis by (simp add: Let_def)
qed (use assms in simp_all)

lemma breakpoints_handle_events_absent:
  "map_of (breakpoints session) i = None \<Longrightarrow>
   map_of (breakpoints (handle_events P session events)) i = None"
  unfolding handle_events_def
  by (induction events arbitrary: session) (simp_all add: breakpoints_handle_event_absent)

lemma breakpoints_resume: "breakpoints (fst (resume P session during reply)) =
   breakpoints (handle_events P session during) \<or>
   breakpoints (fst (resume P session during reply)) = breakpoints session"
  by (simp add: resume_def split: sum.splits option.splits)

lemma breakpoints_step_absent:
  assumes "map_of (breakpoints session) i = None" and "\<not> stores_breakpoint s i"
  shows "map_of (breakpoints (step P session s)) i = None"
proof (cases s)
  case (Event e)
  with assms show ?thesis by (simp add: breakpoints_handle_event_absent)
next
  case (SetBreakpoint url l c cond reply)
  with assms show ?thesis
    by (cases reply) (auto simp add: setBreakpoint_def AList.update_conv' Let_def split: sum.splits)
next
  case (RemoveBreakpoint k reply)
  with assms show ?thesis
    by (auto simp add: removeBreakpoint_def AList.delete_conv' split: sum.splits option.splits)
next
  case (Resume during reply)
  with assms breakpoints_resume [of P session during reply] show ?thesis
    by (auto simp add: breakpoints_handle_events_absent)
next
  case (Destroy closeFails)
  with assms show ?thesis by (simp add: destroySession_object_def)
qed

lemma breakpoints_run_absent:
  "map_of (breakpoints session) i = None \<Longrightarrow> \<forall>s \<in> set steps. \<not> stores_breakpoint s i \<Longrightarrow>
   map_of (breakpoints (run P session steps)) i = None"
  unfolding run_def
  by (induction steps arbitrary: session) (simp_all add: breakpoints_step_absent)

lemma keyed_by_id_handle_event:
  assumes "keyed_by_id session"
  shows "keyed_by_id (handle_event P session e)"
proof (cases e)
  case (BreakpointResolved k location)
  show ?thesis
  proof (cases "map_of (breakpoints session) k")
    case None
    with BreakpointResolved assms show ?thesis by simp
  next
    case (Some b)
    then have "(k, b) \<in> set (breakpoints session)" by (rule map_of_SomeD)
    with assms have "bp_id b = k" by (auto simp add: keyed_by_id_def)
    with BreakpointResolved Some assms
      set_update_subset [of k "b\<lparr> bp_resolvedLocations :=
          bp_resolvedLocations b @ [toBreakpointLocation location] \<rparr>" "breakpoints session"]
    show ?thesis by (auto simp add: keyed_by_id_def)
  qed
next
  case (ScriptParsed params)
  with assms show ?thesis by (simp add: Let_def keyed_by_id_def)
qed (use assms in \<open>simp_all add: keyed_by_id_def\<close>)

lemma keyed_by_id_handle_events:
  "keyed_by_id session \<Longrightarrow> keyed_by_id (handle_events P session events)"
  unfolding handle_events_def
  by (induction events arbitrary: session) (simp_all add: keyed_by_id_handle_event)

lemma keyed_by_id_setBreakpoint:
  assumes "keyed_by_id session"
      and "setBreakpoint session url l c cond reply = Inr (session', info)"
  shows "keyed_by_id session'"
  using assms set_update_subset [of "bp_id info" info "breakpoints session"]
  by (auto simp add: setBreakpoint_def keyed_by_id_def Let_def split: sum.splits)

lemma keyed_by_id_removeBreakpoint:
  assumes "keyed_by_id session"
      and "removeBreakpoint session k reply = Inr session'"
  shows "keyed_by_id session'"
  using assms set_delete_subset [of k "breakpoints session"]
  by (auto simp add: removeBreakpoint_def keyed_by_id_def split: sum.splits option.splits if_splits)

lemma keyed_by_id_step:
  assumes "keyed_by_id session"
  shows "keyed_by_id (step P session s)"
proof (cases s)
  case (Event e)
  with assms show ?thesis by (simp add: keyed_by_id_handle_event)
next
  case (SetBreakpoint url l c cond reply)
  with assms show ?thesis
    by (auto simp add: keyed_by_id_setBreakpoint split: sum.splits)
next
  case (RemoveBreakpoint k reply)
  with assms show ?thesis
    by (auto simp add: keyed_by_id_removeBreakpoint split: sum.splits)
next
  case (Resume during reply)
  with assms breakpoints_resume [of P session during reply]
    keyed_by_id_handle_events [of session P during]
  show ?thesis by (auto simp add: keyed_by_id_def)
next
  case (Destroy closeFails)
  with assms show ?thesis by (simp add: destroySession_object_def keyed_by_id_def)
qed

lemma keyed_by_id_run: "keyed_by_id session \<Longrightarrow> keyed_by_id (run P session steps)"
  unfolding run_def
  by (induction steps arbitrary: session) (simp_all add: keyed_by_id_step)

lemma keyed_by_id_created:
  assumes "createSession P sessions sessionId url name now during None = (sessions', r)"
      and "map_of sessions' sessionId = Some session"
  shows "keyed_by_id session"
proof -
  let ?fresh = "\<lparr> ms_id = sessionId, ms_name = name, targetUrl = url, state = CONNECTING,
                  cdpClient = \<lparr> scripts = [], connected = True \<rparr>,
                  sourceMapManager = \<lparr> consumers = [], sourceMapUrls = [], originalSources = [] \<rparr>,
                  breakpoints = [], pausedState = None, createdAt = now \<rparr>"
  have "keyed_by_id ?fresh" by (simp add: keyed_by_id_def)
  then have "keyed_by_id (handle_events P ?fresh during)" by (rule keyed_by_id_handle_events)
  then have "keyed_by_id ((handle_events P ?fresh during)\<lparr> state := CONNECTED \<rparr>)"
    by (simp add: keyed_by_id_def)
  moreover have "session = (handle_events P ?fresh during)\<lparr> state := CONNECTED \<rparr>"
    using assms by (auto simp add: createSession_def Let_def AList.update_conv')
  ultimately show ?thesis by simp
qed

lemma absent_not_listed:
  assumes "keyed_by_id session" and "map_of (breakpoints session) i = None"
  shows "i \<notin> bp_id ` set (listBreakpoints session)"
proof
  assume "i \<in> bp_id ` set (listBreakpoints session)"
  then obtain entry where e: "entry \<in> set (breakpoints session)" and "bp_id (snd entry) = i"
    by (auto simp add: listBreakpoints_def)
  with assms(1) have "fst entry = i" by (auto simp add: keyed_by_id_def)
  with e have "i \<in> fst ` set (breakpoints session)" by force
  with assms(2) show False by (simp add: map_of_eq_None_iff)
qed

lemma removeBreakpoint_deletes:
  "removeBreakpoint session k reply = Inr session' \<Longrightarrow>
   breakpoints session' = AList.delete k (breakpoints session)"
  by (auto simp add: removeBreakpoint_def split: sum.splits option.splits if_splits)

lemma setBreakpoint_stores:
  "setBreakpoint session url l c cond reply = Inr (session', info) \<Longrightarrow>
   breakpoints session' = AList.update (bp_id info) info (breakpoints session)"
  by (auto simp add: setBreakpoint_def Let_def split: sum.splits)

lemma delete_only_key:
  assumes "fst ` set al \<subseteq> {k}"
  shows "AList.delete k al = []"
  using assms by (induction al) auto

text \<open>
  C8, as amended. After a successful \<open>setBreakpoint\<close> and, whatever events and
  operations come in between, a successful \<open>removeBreakpoint\<close> of the identifier it
  returned, the breakpoint table holds no record under that identifier. No later
  \<open>listBreakpoints\<close> shows it, whatever events arrive and whatever operations are called
  afterwards, until the target answers a later \<open>setBreakpoint\<close> with the same identifier
  (the one way a record enters the table). And the list is empty when the table held no
  other identifier before and none was stored in between.
\<close>

theorem set_then_remove_breakpoint:
  assumes "keyed_by_id session"
      and "setBreakpoint session url lineNumber columnNumber condition reply = Inr (session1, info)"
      and "removeBreakpoint (run P session1 between) (bp_id info) ack = Inr session2"
      and "\<forall>s \<in> set later. \<not> stores_breakpoint s (bp_id info)"
  shows "map_of (breakpoints session2) (bp_id info) = None \<and>
         bp_id info \<notin> bp_id ` set (listBreakpoints (run P session2 later)) \<and>
         (fst ` set (breakpoints session) \<subseteq> {bp_id info} \<and>
          (\<forall>s \<in> set between. \<forall>k. stores_breakpoint s k \<longrightarrow> k = bp_id info) \<longrightarrow>
            listBreakpoints session2 = [])"
proof -
  have k1: "keyed_by_id session1"
    using assms(1,2) by (rule keyed_by_id_setBreakpoint)
  have kb: "keyed_by_id (run P session1 between)"
    using k1 by (rule keyed_by_id_run)
  have k2: "keyed_by_id session2"
    using kb assms(3) by (rule keyed_by_id_removeBreakpoint)
  have d: "breakpoints session2 = AList.delete (bp_id info) (breakpoints (run P session1 between))"
    using assms(3) by (rule removeBreakpoint_deletes)
  then have gone: "map_of (breakpoints session2) (bp_id info) = None"
    by (simp add: AList.delete_conv')
  have "map_of (breakpoints (run P session2 later)) (bp_id info) = None"
    using gone assms(4) by (rule breakpoints_run_absent)
  with keyed_by_id_run [OF k2, of P later]
  have later: "bp_id info \<notin> bp_id ` set (listBreakpoints (run P session2 later))"
    by (rule absent_not_listed)
  have only: "listBreakpoints session2 = []"
    if a: "fst ` set (breakpoints session) \<subseteq> {bp_id info}"
      and b: "\<forall>s \<in> set between. \<forall>k. stores_breakpoint s k \<longrightarrow> k = bp_id info"
  proof -
    have "fst ` set (breakpoints session1) \<subseteq> {bp_id info}"
      using a setBreakpoint_stores [OF assms(2)] by (simp add: AList.dom_update)
    have "fst ` set (breakpoints (run P session1 between)) \<subseteq> {bp_id info}"
    proof
      fix k
      assume in_table: "k \<in> fst ` set (breakpoints (run P session1 between))"
      show "k \<in> {bp_id info}"
      proof (rule ccontr)
        assume "k \<notin> {bp_id info}"
        then have ne: "k \<noteq> bp_id info" by simp
        with \<open>fst ` set (breakpoints session1) \<subseteq> {bp_id info}\<close>
        have "k \<notin> fst ` set (breakpoints session1)" by blast
        then have "map_of (breakpoints session1) k = None"
          by (simp add: map_of_eq_None_iff)
        moreover from b ne have "\<forall>s \<in> set between. \<not> stores_breakpoint s k" by blast
        ultimately have "map_of (breakpoints (run P session1 between)) k = None"
          by (rule breakpoints_run_absent)
        with in_table show False by (simp add: map_of_eq_None_iff)
      qed
    qed
    then show ?thesis
      using d by (simp add: listBreakpoints_def delete_only_key)
  qed
  from gone later only show ?thesis by blast
qed

theorem set_then_remove_breakpoint_witness:
  "keyed_by_id ex_session \<and>
   (\<exists>session1 info session2.
      setBreakpoint ex_session ''file:///a.js'' 10 None None (Inr ex_reply) = Inr (session1, info) \<and>
      bp_id info = ''bp-1'' \<and>
      map bp_resolvedLocations
        (listBreakpoints
           (run ex_platform session1
              [Event (BreakpointResolved ''bp-1''
                        \<lparr> loc_scriptId = ''s-1'', loc_lineNumber = 10,
                          loc_columnNumber = Some 4 \<rparr>)])) =
        [[\<lparr> bl_scriptId = ''s-1'', bl_lineNumber = 10, bl_columnNumber = 0 \<rparr>,
          \<lparr> bl_scriptId = ''s-1'', bl_lineNumber = 10, bl_columnNumber = 4 \<rparr>]] \<and>
      removeBreakpoint
        (run ex_platform session1
           [Event (BreakpointResolved ''bp-1''
                     \<lparr> loc_scriptId = ''s-1'', loc_lineNumber = 10, loc_columnNumber = Some 4 \<rparr>)])
        ''bp-1'' None = Inr session2 \<and>
      listBreakpoints session2 = [] \<and>
      listBreakpoints
        (run ex_platform session2
           [Event (BreakpointResolved ''bp-1''
                     \<lparr> loc_scriptId = ''s-1'', loc_lineNumber = 11, loc_columnNumber = None \<rparr>),
            Event (Paused ex_paused), Resume [] None]) = [])"
proof -
  define info where "info =
    \<lparr> bp_id = ''bp-1'', bp_url = ''file:///a.js'', bp_lineNumber = 10, bp_columnNumber = None,
      bp_condition = None, bp_enabled = True,
      bp_resolvedLocations = [\<lparr> bl_scriptId = ''s-1'', bl_lineNumber = 10, bl_columnNumber = 0 \<rparr>] \<rparr>"
  define between where "between =
    [Event (BreakpointResolved ''bp-1''
              \<lparr> loc_scriptId = ''s-1'', loc_lineNumber = 10, loc_columnNumber = Some 4 \<rparr>)]"
  define later where "later =
    [Event (BreakpointResolved ''bp-1''
              \<lparr> loc_scriptId = ''s-1'', loc_lineNumber = 11, loc_columnNumber = None \<rparr>),
     Event (Paused ex_paused), Resume [] None]"
  define session1 where "session1 = ex_session\<lparr> breakpoints := [(''bp-1'', info)] \<rparr>"
  have k: "keyed_by_id ex_session"
    by (simp add: keyed_by_id_def ex_session_def)
  have s: "setBreakpoint ex_session ''file:///a.js'' 10 None None (Inr ex_reply) =
             Inr (session1, info)"
    by (simp add: setBreakpoint_def ensureConnected_def ex_session_def ex_reply_def
        toBreakpointLocation_def columnOrZero_def info_def session1_def Let_def)
  have i: "bp_id info = ''bp-1''"
    by (simp add: info_def)
  have two: "map bp_resolvedLocations (listBreakpoints (run ex_platform session1 between)) =
        [[\<lparr> bl_scriptId = ''s-1'', bl_lineNumber = 10, bl_columnNumber = 0 \<rparr>,
          \<lparr> bl_scriptId = ''s-1'', bl_lineNumber = 10, bl_columnNumber = 4 \<rparr>]]"
    by (simp add: run_def between_def session1_def info_def listBreakpoints_def
        toBreakpointLocation_def columnOrZero_def)
  have r: "removeBreakpoint (run ex_platform session1 between) (bp_id info) None =
             Inr (ex_session\<lparr> breakpoints := [] \<rparr>)"
    by (simp add: run_def between_def session1_def removeBreakpoint_def ensureConnected_def
        ex_session_def i)
  have n: "\<forall>s \<in> set later. \<not> stores_breakpoint s (bp_id info)"
    by (simp add: later_def)
  have b: "\<forall>s \<in> set between. \<forall>k. stores_breakpoint s k \<longrightarrow> k = bp_id info"
    by (simp add: between_def)
  have e: "breakpoints ex_session = []"
    by (simp add: ex_session_def)
  from set_then_remove_breakpoint [OF k s r n] e b
  have l: "listBreakpoints (ex_session\<lparr> breakpoints := [] \<rparr>) = []"
    by simp
  have "breakpoints (run ex_platform (ex_session\<lparr> breakpoints := [] \<rparr>) later) = []"
    by (simp add: run_def later_def resume_def ensureConnected_def ex_session_def
        handle_events_def)
  then have f: "listBreakpoints (run ex_platform (ex_session\<lparr> breakpoints := [] \<rparr>) later) = []"
    by (simp add: listBreakpoints_def)
  from k s i two r l f show ?thesis
    unfolding between_def later_def by (metis i)
qed

text \<open>
  C8 as stated fails: the identifier is back in the list as soon as the target answers
  a later \<open>setBreakpoint\<close> with it (a target that derives the identifier of a breakpoint
  from its URL and line does, when the breakpoint is set again).
\<close>

theorem breakpoint_id_reappears:
  "(case setBreakpoint ex_session ''file:///a.js'' 10 None None (Inr ex_reply) of
      Inl e \<Rightarrow> None
    | Inr r \<Rightarrow> Some (bp_id (snd r))) = Some ''bp-1'' \<and>
   map bp_id (listBreakpoints
     (run ex_platform ex_session
        [SetBreakpoint ''file:///a.js'' 10 None None (Inr ex_reply)])) = [''bp-1''] \<and>
   map bp_id (listBreakpoints
     (run ex_platform ex_session
        [SetBreakpoint ''file:///a.js'' 10 None None (Inr ex_reply),
         RemoveBreakpoint ''bp-1'' None])) = [] \<and>
   map bp_id (listBreakpoints
     (run ex_platform ex_session
        [SetBreakpoint ''file:///a.js'' 10 None None (Inr ex_reply),
         RemoveBreakpoint ''bp-1'' None,
         SetBreakpoint ''file:///a.js'' 10 None None (Inr ex_reply)])) = [''bp-1'']"
  by (simp add: run_def setBreakpoint_def removeBreakpoint_def ensureConnected_def
      listBreakpoints_def ex_session_def ex_reply_def Let_def)

subsection \<open>The paused snapshot and the session state\<close>

lemma I3_handle_event: "I3 session \<Longrightarrow> I3 (handle_event P session e)"
  by (cases e) (simp_all add: I3_def Let_def split: option.splits)

lemma I3_handle_events: "I3 session \<Longrightarrow> I3 (handle_events P session events)"
  unfolding handle_events_def
  by (induction events arbitrary: session) (simp_all add: I3_handle_event)

lemma pausedState_handle_event_None:
  "pausedState session = None \<Longrightarrow> \<not> is_paused e \<Longrightarrow>
   pausedState (handle_event P session e) = None"
  by (cases e) (simp_all add: Let_def split: option.splits)

lemma pausedState_handle_events_None:
  "pausedState session = None \<Longrightarrow> \<forall>e \<in> set events. \<not> is_paused e \<Longrightarrow>
   pausedState (handle_events P session events) = None"
  unfolding handle_events_def
  by (induction events arbitrary: session) (simp_all add: pausedState_handle_event_None)

lemma I3_resume_paused:
  assumes "I3 session" and "state session = PAUSED"
  shows "I3 (fst (resume P session during reply))"
  using assms I3_handle_events [of session P during]
  by (simp add: resume_def ensureConnected_def)

lemma I3_resume:
  assumes "I3 session"
  shows "I3 (fst (resume P session during reply)) =
           (\<not> loses_pause P session (Resume during reply))"
proof (cases "state session = CONNECTED \<and> connected (cdpClient session) \<and> reply = None")
  case True
  then show ?thesis
    by (simp add: resume_def ensureConnected_def I3_def)
next
  case False
  with assms I3_handle_events [of session P during] show ?thesis
    by (auto simp add: resume_def ensureConnected_def split: option.splits)
qed

lemma I3_step:
  assumes "I3 session" and "\<not> loses_pause P session s"
  shows "I3 (step P session s)"
proof (cases s)
  case (Event e)
  with assms show ?thesis by (simp add: I3_handle_event)
next
  case (SetBreakpoint url l c cond reply)
  with assms show ?thesis
    by (auto simp add: setBreakpoint_def I3_def Let_def split: sum.splits)
next
  case (RemoveBreakpoint k reply)
  with assms show ?thesis
    by (auto simp add: removeBreakpoint_def I3_def split: sum.splits option.splits if_splits)
next
  case (Resume during reply)
  with assms I3_resume [of session P during reply] show ?thesis by simp
next
  case (Destroy closeFails)
  with assms show ?thesis by (simp add: destroySession_object_def I3_def)
qed

lemma I3_run:
  "I3 session \<Longrightarrow> keeps_pauses P session steps \<Longrightarrow> I3 (run P session steps)"
  unfolding run_def
  by (induction steps arbitrary: session) (simp_all add: I3_step)

lemma I3_created:
  assumes "createSession P sessions sessionId url name now during None = (sessions', r)"
      and "map_of sessions' sessionId = Some session"
      and "\<forall>e \<in> set during. \<not> is_paused e"
  shows "I3 session"
proof -
  let ?fresh = "\<lparr> ms_id = sessionId, ms_name = name, targetUrl = url, state = CONNECTING,
                  cdpClient = \<lparr> scripts = [], connected = True \<rparr>,
                  sourceMapManager = \<lparr> consumers = [], sourceMapUrls = [], originalSources = [] \<rparr>,
                  breakpoints = [], pausedState = None, createdAt = now \<rparr>"
  have "pausedState (handle_events P ?fresh during) = None"
    using assms(3) by (simp add: pausedState_handle_events_None)
  then have "I3 ((handle_events P ?fresh during)\<lparr> state := CONNECTED \<rparr>)"
    by (simp add: I3_def)
  moreover have "session = (handle_events P ?fresh during)\<lparr> state := CONNECTED \<rparr>"
    using assms(1,2) by (auto simp add: createSession_def Let_def AList.update_conv')
  ultimately show ?thesis by simp
qed

text \<open>
  What C7 says of the handlers holds: the \<^verbatim>\<open>paused\<close> event installs the snapshot
  together with the state \<open>PAUSED\<close>, the \<^verbatim>\<open>resumed\<close> and \<^verbatim>\<open>disconnected\<close> events drop the
  snapshot and set \<open>RUNNING\<close> and \<open>DISCONNECTED\<close>. \<open>resume\<close> on a paused session writes
  nothing itself; the \<^verbatim>\<open>resumed\<close> event that answers its command leaves the session
  \<open>RUNNING\<close> without a snapshot.
\<close>

lemma handlers_write_state_and_snapshot:
  "state (handle_event P session (Paused params)) = PAUSED \<and>
   pausedState (handle_event P session (Paused params)) = Some params \<and>
   state (handle_event P session Resumed) = RUNNING \<and>
   pausedState (handle_event P session Resumed) = None \<and>
   state (handle_event P session Disconnected) = DISCONNECTED \<and>
   pausedState (handle_event P session Disconnected) = None"
  by simp

lemma resume_paused_then_resumed:
  assumes "state session = PAUSED" and "connected (cdpClient session)"
  shows "resume P session [] reply = (session, reply) \<and>
         state (fst (resume P session [Resumed] reply)) = RUNNING \<and>
         pausedState (fst (resume P session [Resumed] reply)) = None"
  using assms by (simp add: resume_def ensureConnected_def handle_events_def)

text \<open>
  \<open>createSession\<close> has the shape of \<open>resume\<close> on a connected session: it writes
  \<open>CONNECTED\<close> after the \<^verbatim>\<open>await\<close> of \<^verbatim>\<open>connect\<close>, over whatever the handlers wrote
  meanwhile.
\<close>

lemma createSession_loses_pause:
  "map_of (fst (createSession ex_platform [] ''sid-1'' ''ws://localhost:9229/test'' None 0
                  [Paused ex_paused] None)) ''sid-1'' =
     Some \<lparr> ms_id = ''sid-1'', ms_name = None, targetUrl = ''ws://localhost:9229/test'',
            state = CONNECTED, cdpClient = \<lparr> scripts = [], connected = True \<rparr>,
            sourceMapManager = \<lparr> consumers = [], sourceMapUrls = [], originalSources = [] \<rparr>,
            breakpoints = [], pausedState = Some ex_paused, createdAt = 0 \<rparr>"
  by (simp add: createSession_def handle_events_def)

text \<open>
  C7 fails in \<open>resume\<close> on a session in state \<open>CONNECTED\<close> (a target started with
  \<^verbatim>\<open>--inspect-brk\<close>). The session satisfies I3 before the call. The target answers
  \<^verbatim>\<open>Runtime.runIfWaitingForDebugger\<close> and pauses on its first statement. When the
  \<^verbatim>\<open>paused\<close> event is handled before the statement after the \<^verbatim>\<open>await\<close> runs, that
  statement writes \<open>RUNNING\<close> over the state the handler wrote: the session is left in
  state \<open>RUNNING\<close> with the snapshot present, so I3 is broken. The operations that need a
  paused session refuse it and \<open>resume\<close> refuses it too, while the target stays paused.
  Every other step keeps I3 (\<open>I3_step\<close>, \<open>I3_run\<close>).
\<close>

theorem resume_overwrites_paused:
  "I3 ex_session \<and> state ex_session = CONNECTED \<and>
   resume ex_platform ex_session [Paused ex_paused] None =
     (ex_session\<lparr> state := RUNNING, pausedState := Some ex_paused \<rparr>, None) \<and>
   \<not> I3 (fst (resume ex_platform ex_session [Paused ex_paused] None)) \<and>
   getScopeVariables (fst (resume ex_platform ex_session [Paused ex_paused] None))
       ''frame-1'' 0 (Inr ex_properties) =
     ([], Inl (DebuggerError SESSION_INVALID_STATE ''Session test-session-id is not paused'')) \<and>
   snd (resume ex_platform (fst (resume ex_platform ex_session [Paused ex_paused] None)) [] None) =
     Some (DebuggerError SESSION_INVALID_STATE
             ''Session test-session-id is not paused or waiting for debugger'')"
  by (simp add: resume_def ensureConnected_def ensurePaused_def getScopeVariables_def
      handle_events_def ex_session_def I3_def)

text \<open>
  In the manager with a server configuration the \<^verbatim>\<open>disconnected\<close> event sets the state
  and deletes the session from the registry; the snapshot of the session object stays.
\<close>

lemma wk_disconnected_keeps_snapshot:
  "ds_pausedState (handleSessionEvent session (Ev_disconnected reason)) = ds_pausedState session \<and>
   ds_state (handleSessionEvent session (Ev_disconnected reason)) = DISCONNECTED"
  by simp

subsection \<open>Resolved breakpoint locations\<close>

lemma map_fst_update_present:
  "map_of al k = Some v \<Longrightarrow> map fst (AList.update k v' al) = map fst al"
  by (induction al) (auto split: if_splits)

text \<open>
  The handler of \<^verbatim>\<open>src/session-manager.ts\<close> does what C5 says: the resolved location
  goes to the end of the record's list, every other record and the order of the table
  stay, and an event for an unknown identifier changes nothing.
\<close>

lemma breakpointResolved_appends:
  "(map_of (breakpoints session) k = Some b \<longrightarrow>
      map_of (breakpoints (handle_event P session (BreakpointResolved k location))) k =
        Some (b\<lparr> bp_resolvedLocations :=
                   bp_resolvedLocations b @
                     [\<lparr> bl_scriptId = loc_scriptId location,
                        bl_lineNumber = loc_lineNumber location,
                        bl_columnNumber =
                          (case loc_columnNumber location of None \<Rightarrow> 0 | Some c \<Rightarrow> c) \<rparr>] \<rparr>) \<and>
      (\<forall>k'. k' \<noteq> k \<longrightarrow>
         map_of (breakpoints (handle_event P session (BreakpointResolved k location))) k' =
           map_of (breakpoints session) k') \<and>
      map fst (breakpoints (handle_event P session (BreakpointResolved k location))) =
        map fst (breakpoints session)) \<and>
   (map_of (breakpoints session) k = None \<longrightarrow>
      handle_event P session (BreakpointResolved k location) = session)"
  by (auto simp add: AList.update_conv' map_fst_update_present toBreakpointLocation_def
      columnOrZero_def)

text \<open>
  C5 fails on \<open>handleSessionEvent\<close> of the manager with a server configuration: the
  record's list of locations is replaced by the one resolved location, so the location
  the record held before is gone.
\<close>

theorem wk_breakpointResolved_replaces:
  "map (\<lambda>entry. (fst entry, wbp_locations (snd entry))) (ds_breakpoints ex_wk_session) =
     [(''bp-1'', [\<lparr> bl_scriptId = ''s-1'', bl_lineNumber = 10, bl_columnNumber = 0 \<rparr>])] \<and>
   map (\<lambda>entry. (fst entry, wbp_locations (snd entry)))
     (ds_breakpoints
        (handleSessionEvent ex_wk_session
           (Ev_breakpointResolved ''bp-1''
              \<lparr> bl_scriptId = ''s-1'', bl_lineNumber = 10, bl_columnNumber = 4 \<rparr>))) =
     [(''bp-1'', [\<lparr> bl_scriptId = ''s-1'', bl_lineNumber = 10, bl_columnNumber = 4 \<rparr>])]"
  by (simp add: ex_wk_session_def ex_wk_breakpoint_def)

subsection \<open>Variable assignment and scope variables\<close>

text \<open>
  \<open>setVariableValue\<close> of \<^verbatim>\<open>src/session-manager.ts\<close> on a paused, connected session. The
  first command is the evaluation of the expression on the frame with
  \<open>returnByValue = False\<close>. When the reply carries exception details nothing else is
  sent and the call fails with \<open>PROTOCOL_ERROR\<close>, the exception text at the end of its
  message. Otherwise the second command is \<^verbatim>\<open>Debugger.setVariableValue\<close> with the scope
  index, the name and the frame, and its argument is the object id when that is a
  non-empty string, else the value when the object has the key \<^verbatim>\<open>value\<close>, else the
  unserializable form when that is a non-empty string, else an empty argument. This
  is the argument the specification describes on every object that does not carry
  both a value and an unserializable form (empty strings apart); a target reports the
  unserializable form of a number in place of its value, never next to it.
\<close>

theorem setVariableValue_two_phases:
  assumes "ensurePaused session = Inr ()" and "connected (cdpClient session)"
  shows "take 1 (fst (setVariableValue session callFrameId scopeIndex variableName newValue
                        evalReply setReply)) =
           [EvaluateOnCallFrame callFrameId newValue False] \<and>
         (er_exceptionDetails evalResult = Some details \<longrightarrow>
            setVariableValue session callFrameId scopeIndex variableName newValue
                (Inr evalResult) setReply =
              ([EvaluateOnCallFrame callFrameId newValue False],
               Inl (DebuggerError PROTOCOL_ERROR
                      (''Failed to evaluate new value: '' @ ed_text details)))) \<and>
         (er_exceptionDetails evalResult = None \<longrightarrow>
            setVariableValue session callFrameId scopeIndex variableName newValue
                (Inr evalResult) setReply =
              ([EvaluateOnCallFrame callFrameId newValue False,
                SetVariableValue scopeIndex variableName
                  (if truthy (ro_objectId (er_result evalResult)) then
                     \<lparr> ca_value = None, ca_unserializableValue = None,
                       ca_objectId = ro_objectId (er_result evalResult) \<rparr>
                   else if ro_value (er_result evalResult) \<noteq> None then
                     \<lparr> ca_value = ro_value (er_result evalResult),
                       ca_unserializableValue = None, ca_objectId = None \<rparr>
                   else if truthy (ro_unserializableValue (er_result evalResult)) then
                     \<lparr> ca_value = None,
                       ca_unserializableValue = ro_unserializableValue (er_result evalResult),
                       ca_objectId = None \<rparr>
                   else \<lparr> ca_value = None, ca_unserializableValue = None, ca_objectId = None \<rparr>)
                  callFrameId],
               (case setReply of Some e \<Rightarrow> Inl e | None \<Rightarrow> Inr ()))) \<and>
         (ro_objectId result \<noteq> Some [] \<and> ro_unserializableValue result \<noteq> Some [] \<and>
          (ro_value result = None \<or> ro_unserializableValue result = None) \<longrightarrow>
            callArgument result = spec_callArgument result)"
proof -
  have first: "take 1 (fst (setVariableValue session callFrameId scopeIndex variableName newValue
                        evalReply setReply)) =
           [EvaluateOnCallFrame callFrameId newValue False]"
    using assms
    by (simp add: setVariableValue_def ensureConnected_def split: sum.splits option.splits)
  have agree: "ro_objectId result \<noteq> Some [] \<and> ro_unserializableValue result \<noteq> Some [] \<and>
          (ro_value result = None \<or> ro_unserializableValue result = None) \<longrightarrow>
            callArgument result = spec_callArgument result"
    by (cases "ro_objectId result"; cases "ro_unserializableValue result")
       (auto simp add: callArgument_def spec_callArgument_def)
  from first agree show ?thesis
    using assms by (simp add: setVariableValue_def ensureConnected_def callArgument_def)
qed

theorem setVariableValue_two_phases_witness:
  "ensurePaused ex_paused_session = Inr () \<and> connected (cdpClient ex_paused_session) \<and>
   setVariableValue ex_paused_session ''frame-1'' 0 ''x'' ''100''
       (Inr \<lparr> er_result = ex_number, er_exceptionDetails = None \<rparr>) None =
     ([EvaluateOnCallFrame ''frame-1'' ''100'' False,
       SetVariableValue 0 ''x''
         \<lparr> ca_value = Some (JsNumber 42), ca_unserializableValue = None, ca_objectId = None \<rparr>
         ''frame-1''],
      Inr ()) \<and>
   setVariableValue ex_paused_session ''frame-1'' 0 ''x'' ''invalid''
       (Inr \<lparr> er_result = \<lparr> ro_type = ''undefined'', ro_objectId = None, ro_value = None,
                             ro_unserializableValue = None \<rparr>,
              er_exceptionDetails = Some \<lparr> ed_text = ''ReferenceError: invalid is not defined'',
                                           ed_lineNumber = 1, ed_columnNumber = 0 \<rparr> \<rparr>) None =
     ([EvaluateOnCallFrame ''frame-1'' ''invalid'' False],
      Inl (DebuggerError PROTOCOL_ERROR
             ''Failed to evaluate new value: ReferenceError: invalid is not defined''))"
proof -
  have p: "ensurePaused ex_paused_session = Inr ()"
    by (simp add: ensurePaused_def ex_paused_session_def)
  have c: "connected (cdpClient ex_paused_session)"
    by (simp add: ex_paused_session_def ex_session_def)
  show ?thesis
    using p c
      setVariableValue_two_phases [OF p c, of "''frame-1''" 0 "''x''" "''100''"
        "Inr \<lparr> er_result = ex_number, er_exceptionDetails = None \<rparr>" None
        "\<lparr> er_result = ex_number, er_exceptionDetails = None \<rparr>"]
      setVariableValue_two_phases [OF p c, of "''frame-1''" 0 "''x''" "''invalid''"
        "Inl (TargetError [])" None
        "\<lparr> er_result = \<lparr> ro_type = ''undefined'', ro_objectId = None, ro_value = None,
                             ro_unserializableValue = None \<rparr>,
              er_exceptionDetails = Some \<lparr> ed_text = ''ReferenceError: invalid is not defined'',
                                           ed_lineNumber = 1, ed_columnNumber = 0 \<rparr> \<rparr>"
        "\<lparr> ed_text = ''ReferenceError: invalid is not defined'',
           ed_lineNumber = 1, ed_columnNumber = 0 \<rparr>"]
    by (simp add: ex_number_def)
qed

text \<open>
  The other session manager reads neither the exception details nor the object id: a
  paused, connected session sends \<^verbatim>\<open>Debugger.setVariableValue\<close> after every evaluation
  reply, with the \<^verbatim>\<open>value\<close> field of the result as the argument.
\<close>

lemma wk_setVariableValue_always_sets:
  assumes "ds_state session = PAUSED" and "ds_wsConnected session"
  shows "fst (wk_setVariableValue session callFrameId scopeIndex variableName newValue
                (Inr evalResult) setReply) =
           [EvaluateOnCallFrame callFrameId newValue False,
            SetVariableValue scopeIndex variableName
              \<lparr> ca_value = ro_value (er_result evalResult), ca_unserializableValue = None,
                ca_objectId = None \<rparr> callFrameId]"
  using assms by (simp add: wk_setVariableValue_def requireState_def wk_ensureConnected_def)

text \<open>
  C3 fails in \<open>setVariableValue\<close> of the session manager with a server configuration
  (\<^verbatim>\<open>wk_setVariableValue\<close>). An expression that evaluates to an object comes back with
  an object id and without a value: the second command is sent with an argument that
  holds neither, where the claim asks for the object id. An expression whose
  evaluation throws comes back with exception details: the second command is sent all
  the same and the call succeeds, where the claim asks for a protocol error and no
  second command. On the same replies \<open>setVariableValue\<close> of \<^verbatim>\<open>src/session-manager.ts\<close>
  does what the claim says.
\<close>

theorem wk_setVariableValue_ignores_evaluation:
  "wk_setVariableValue ex_wk_session ''frame-1'' 0 ''x'' ''({a: 1})''
       (Inr \<lparr> er_result = ex_object, er_exceptionDetails = None \<rparr>) None =
     ([EvaluateOnCallFrame ''frame-1'' ''({a: 1})'' False,
       SetVariableValue 0 ''x''
         \<lparr> ca_value = None, ca_unserializableValue = None, ca_objectId = None \<rparr>
         ''frame-1''],
      Inr ()) \<and>
   setVariableValue ex_paused_session ''frame-1'' 0 ''x'' ''({a: 1})''
       (Inr \<lparr> er_result = ex_object, er_exceptionDetails = None \<rparr>) None =
     ([EvaluateOnCallFrame ''frame-1'' ''({a: 1})'' False,
       SetVariableValue 0 ''x''
         \<lparr> ca_value = None, ca_unserializableValue = None, ca_objectId = Some ''obj-1'' \<rparr>
         ''frame-1''],
      Inr ()) \<and>
   wk_setVariableValue ex_wk_session ''frame-1'' 0 ''x'' ''invalid''
       (Inr \<lparr> er_result = ex_thrown, er_exceptionDetails = Some ex_exception \<rparr>) None =
     ([EvaluateOnCallFrame ''frame-1'' ''invalid'' False,
       SetVariableValue 0 ''x''
         \<lparr> ca_value = None, ca_unserializableValue = None, ca_objectId = None \<rparr>
         ''frame-1''],
      Inr ()) \<and>
   setVariableValue ex_paused_session ''frame-1'' 0 ''x'' ''invalid''
       (Inr \<lparr> er_result = ex_thrown, er_exceptionDetails = Some ex_exception \<rparr>) None =
     ([EvaluateOnCallFrame ''frame-1'' ''invalid'' False],
      Inl (DebuggerError PROTOCOL_ERROR
             ''Failed to evaluate new value: ReferenceError: invalid is not defined''))"
  by (simp add: wk_setVariableValue_def requireState_def wk_ensureConnected_def
      setVariableValue_def ensurePaused_def ensureConnected_def callArgument_def
      ex_wk_session_def ex_paused_session_def ex_session_def ex_object_def ex_thrown_def
      ex_exception_def)

lemma valued_pairs:
  "map (\<lambda>v. (sv_name v, Some (sv_value v)))
     (map (\<lambda>prop. \<lparr> sv_name = pd_name prop, sv_value = the (pd_value prop) \<rparr>)
        (filter (\<lambda>prop. pd_value prop \<noteq> None) result)) =
   filter (\<lambda>x. snd x \<noteq> None) (map (\<lambda>p. (pd_name p, pd_value p)) result)"
  by (induction result) auto

text \<open>
  C4, as amended. On a paused, connected session whose snapshot has the frame and, at
  the index, a scope with a non-empty object id, both managers send one
  \<^verbatim>\<open>Runtime.getProperties\<close> for that object id. The manager with a server configuration
  returns exactly the (name, value) pairs of the fetched descriptors that carry a
  value, in their order. The manager of \<^verbatim>\<open>src/session-manager.ts\<close> returns the fetched
  descriptors as they are, those without a value included.
\<close>

theorem getScopeVariables_results:
  "(ds_state ws = PAUSED \<and> ds_pausedState ws = Some wps \<and>
    find (\<lambda>f. wcf_callFrameId f = callFrameId) (wps_callFrames wps) = Some wframe \<and>
    element_at (wcf_scopeChain wframe) scopeIndex = Some wscope \<and>
    ro_objectId (sc_object wscope) = Some objectId \<and> objectId \<noteq> [] \<and> ds_wsConnected ws \<longrightarrow>
      (\<exists>vars. wk_getScopeVariables ws callFrameId scopeIndex (Inr result) =
                 ([GetProperties objectId True], Inr vars) \<and>
               map (\<lambda>v. (sv_name v, Some (sv_value v))) vars =
                 filter (\<lambda>x. snd x \<noteq> None) (map (\<lambda>p. (pd_name p, pd_value p)) result))) \<and>
   (state session = PAUSED \<and> pausedState session = Some ps \<and>
    find (\<lambda>f. cf_callFrameId f = callFrameId) (ps_callFrames ps) = Some frame \<and>
    element_at (cf_scopeChain frame) scopeIndex = Some scope \<and>
    ro_objectId (sc_object scope) = Some objectId \<and> objectId \<noteq> [] \<and>
    connected (cdpClient session) \<longrightarrow>
      getScopeVariables session callFrameId scopeIndex (Inr result) =
        ([GetProperties objectId True], Inr result))"
proof -
  have wk: "ds_state ws = PAUSED \<and> ds_pausedState ws = Some wps \<and>
    find (\<lambda>f. wcf_callFrameId f = callFrameId) (wps_callFrames wps) = Some wframe \<and>
    element_at (wcf_scopeChain wframe) scopeIndex = Some wscope \<and>
    ro_objectId (sc_object wscope) = Some objectId \<and> objectId \<noteq> [] \<and> ds_wsConnected ws \<longrightarrow>
      (\<exists>vars. wk_getScopeVariables ws callFrameId scopeIndex (Inr result) =
                 ([GetProperties objectId True], Inr vars) \<and>
               map (\<lambda>v. (sv_name v, Some (sv_value v))) vars =
                 filter (\<lambda>x. snd x \<noteq> None) (map (\<lambda>p. (pd_name p, pd_value p)) result))"
    using valued_pairs [of result]
    by (auto simp add: wk_getScopeVariables_def requireState_def wk_ensureConnected_def
        element_at_def split: if_splits)
  have cdp: "state session = PAUSED \<and> pausedState session = Some ps \<and>
    find (\<lambda>f. cf_callFrameId f = callFrameId) (ps_callFrames ps) = Some frame \<and>
    element_at (cf_scopeChain frame) scopeIndex = Some scope \<and>
    ro_objectId (sc_object scope) = Some objectId \<and> objectId \<noteq> [] \<and>
    connected (cdpClient session) \<longrightarrow>
      getScopeVariables session callFrameId scopeIndex (Inr result) =
        ([GetProperties objectId True], Inr result)"
    by (simp add: getScopeVariables_def ensurePaused_def ensureConnected_def)
  from wk cdp show ?thesis by blast
qed

theorem getScopeVariables_results_witness:
  "ds_state ex_wk_session = PAUSED \<and> ds_wsConnected ex_wk_session \<and>
   state ex_paused_session = PAUSED \<and> connected (cdpClient ex_paused_session) \<and>
   wk_getScopeVariables ex_wk_session ''frame-1'' 0 (Inr ex_properties) =
     ([GetProperties ''obj-1'' True], Inr [\<lparr> sv_name = ''x'', sv_value = ex_number \<rparr>]) \<and>
   getScopeVariables ex_paused_session ''frame-1'' 0 (Inr ex_properties) =
     ([GetProperties ''obj-1'' True], Inr ex_properties)"
proof -
  have w: "wk_getScopeVariables ex_wk_session ''frame-1'' 0 (Inr ex_properties) =
     ([GetProperties ''obj-1'' True], Inr [\<lparr> sv_name = ''x'', sv_value = ex_number \<rparr>])"
    by (simp add: wk_getScopeVariables_def requireState_def wk_ensureConnected_def
        ex_wk_session_def ex_wk_frame_def ex_object_def ex_properties_def)
  have c: "getScopeVariables ex_paused_session ''frame-1'' 0 (Inr ex_properties) =
     ([GetProperties ''obj-1'' True], Inr ex_properties)"
    by (simp add: getScopeVariables_def ensurePaused_def ensureConnected_def element_at_def
        ex_paused_session_def ex_session_def ex_paused_def ex_frame_def ex_object_def)
  have s: "ds_state ex_wk_session = PAUSED \<and> ds_wsConnected ex_wk_session \<and>
    state ex_paused_session = PAUSED \<and> connected (cdpClient ex_paused_session)"
    by (simp add: ex_wk_session_def ex_paused_session_def ex_session_def)
  show ?thesis
    using w c s
      getScopeVariables_results [of ex_wk_session
        "\<lparr> wps_reason = ''breakpoint'', wps_callFrames = [ex_wk_frame],
           wps_asyncStackTrace = None, wps_data = None \<rparr>"
        "''frame-1''" ex_wk_frame 0 "\<lparr> sc_type = ''local'', sc_object = ex_object \<rparr>"
        "''obj-1''" ex_properties ex_paused_session ex_paused ex_frame
        "\<lparr> sc_type = ''local'', sc_object = ex_object \<rparr>"]
    by simp
qed

text \<open>
  C4 as stated fails on \<open>getScopeVariables\<close> of \<^verbatim>\<open>src/session-manager.ts\<close>: a fetched
  descriptor without a value (the accessor \<open>y\<close>) is returned with the others.
\<close>

theorem getScopeVariables_counterexample:
  "map pd_value ex_properties = [Some ex_number, None] \<and>
   snd (getScopeVariables ex_paused_session ''frame-1'' 0 (Inr ex_properties)) =
     Inr ex_properties \<and>
   map pd_name (filter (\<lambda>p. pd_value p = None) ex_properties) = [''y'']"
  by (simp add: getScopeVariables_def ensurePaused_def ensureConnected_def element_at_def
      ex_paused_session_def ex_session_def ex_paused_def ex_frame_def ex_object_def
      ex_properties_def)

subsection \<open>Inline source maps\<close>

lemma strip_prefix_Some: "(strip_prefix p s = Some r) = (s = p @ r)"
proof
  assume "strip_prefix p s = Some r"
  then have "take (length p) s = p" and "drop (length p) s = r"
    by (auto simp add: strip_prefix_def startsWith_def split: if_splits)
  then show "s = p @ r"
    using append_take_drop_id [of "length p" s] by simp
next
  assume "s = p @ r"
  then show "strip_prefix p s = Some r"
    by (simp add: strip_prefix_def startsWith_def)
qed

lemma strip_prefix_None: "(strip_prefix p s = None) = (\<forall>r. s \<noteq> p @ r)"
  using strip_prefix_Some [of p s] by (cases "strip_prefix p s") auto

lemma dot_plus_to_end_Some:
  "(dot_plus_to_end s = Some p) = (p = s \<and> s \<noteq> [] \<and> \<not> has_line_terminator s)"
  by (auto simp add: dot_plus_to_end_def)

lemma dot_plus_to_end_None:
  "(dot_plus_to_end s = None) = (s = [] \<or> has_line_terminator s)"
  by (auto simp add: dot_plus_to_end_def)

lemma match_inline_forms:
  "(match_inline dataUrl = Some payload) =
     ((dataUrl = ''data:application/json;base64,'' @ payload \<or>
       dataUrl = ''data:application/json;charset=utf-8;base64,'' @ payload) \<and>
      payload \<noteq> [] \<and> \<not> has_line_terminator payload)"
  unfolding match_inline_def
  by (auto simp add: strip_prefix_Some strip_prefix_None dot_plus_to_end_Some
      dot_plus_to_end_None split: option.splits)

lemma match_inline_within_spec:
  assumes "match_inline dataUrl = Some payload"
  shows "spec_data_url_payload dataUrl = Some payload"
proof -
  from assms have p: "payload \<noteq> []" "\<not> has_line_terminator payload"
    and d: "dataUrl = ''data:application/json;base64,'' @ payload \<or>
            dataUrl = ''data:application/json;charset=utf-8;base64,'' @ payload"
    by (simp_all add: match_inline_forms)
  from d show ?thesis
  proof
    assume "dataUrl = ''data:application/json;base64,'' @ payload"
    with p show ?thesis
      by (simp add: spec_data_url_payload_def strip_prefix_def startsWith_def
          dot_plus_to_end_def)
  next
    assume "dataUrl = ''data:application/json;charset=utf-8;base64,'' @ payload"
    with p show ?thesis
      by (simp add: spec_data_url_payload_def strip_prefix_def startsWith_def
          dot_plus_to_end_def)
  qed
qed

text \<open>
  C6, as amended. \<open>loadInlineSourceMap\<close> recognises exactly the strings
  \<^verbatim>\<open>data:application/json;base64,P\<close> and \<^verbatim>\<open>data:application/json;charset=utf-8;base64,P\<close>
  with \<open>P\<close> not empty and free of line terminators. For those it base64-decodes \<open>P\<close>,
  parses the text as JSON and builds a consumer, and registers the consumer and its
  sources when both succeed; any failure returns false and leaves the manager as it was.
  Every other string returns false and loads nothing. Every recognised string is of the
  documented form, with the same payload.
\<close>

theorem loadInlineSourceMap_recognition:
  "(match_inline dataUrl = Some payload) =
     ((dataUrl = ''data:application/json;base64,'' @ payload \<or>
       dataUrl = ''data:application/json;charset=utf-8;base64,'' @ payload) \<and>
      payload \<noteq> [] \<and> \<not> has_line_terminator payload) \<and>
   (match_inline dataUrl = Some payload \<longrightarrow>
      spec_data_url_payload dataUrl = Some payload \<and>
      loadInlineSourceMap P m scriptId dataUrl =
        (case json_parse P (base64_decode P payload) of
           None \<Rightarrow> (m, False)
         | Some rawSourceMap \<Rightarrow>
             (case new_SourceMapConsumer P rawSourceMap of
                None \<Rightarrow> (m, False)
              | Some consumer \<Rightarrow>
                  (m\<lparr> consumers := AList.update scriptId consumer (consumers m),
                      originalSources :=
                        AList.update scriptId (smc_sources consumer) (originalSources m) \<rparr>,
                   True)))) \<and>
   (match_inline dataUrl = None \<longrightarrow> loadInlineSourceMap P m scriptId dataUrl = (m, False))"
  using match_inline_forms [of dataUrl payload] match_inline_within_spec [of dataUrl payload]
  by (auto simp add: loadInlineSourceMap_def)

theorem loadInlineSourceMap_recognition_witness:
  "match_inline ''data:application/json;charset=utf-8;base64,e30='' = Some ''e30='' \<and>
   spec_data_url_payload ''data:application/json;charset=utf-8;base64,e30='' = Some ''e30='' \<and>
   loadInlineSourceMap ex_platform ex_manager ''script-1''
       ''data:application/json;charset=utf-8;base64,e30='' =
     (\<lparr> consumers = [(''script-1'', ex_consumer\<lparr> smc_sources := [] \<rparr>)], sourceMapUrls = [],
        originalSources = [(''script-1'', [])] \<rparr>, True) \<and>
   match_inline ''data:text/plain;base64,e30='' = None \<and>
   loadInlineSourceMap ex_platform ex_manager ''script-1'' ''data:text/plain;base64,e30='' =
     (ex_manager, False)"
proof -
  have a: "match_inline ''data:application/json;charset=utf-8;base64,e30='' = Some ''e30=''"
    by (simp add: match_inline_def strip_prefix_def startsWith_def dot_plus_to_end_def
        has_line_terminator_def)
  have b: "match_inline ''data:text/plain;base64,e30='' = None"
    by (simp add: match_inline_def strip_prefix_def startsWith_def)
  show ?thesis
    using a b
      loadInlineSourceMap_recognition [of "''data:application/json;charset=utf-8;base64,e30=''"
        "''e30=''" ex_platform ex_manager "''script-1''"]
      loadInlineSourceMap_recognition [of "''data:text/plain;base64,e30=''"
        "''e30=''" ex_platform ex_manager "''script-1''"]
    by (simp add: ex_platform_def ex_manager_def)
qed

text \<open>
  C6 as stated fails: a reference with another charset (here \<^verbatim>\<open>UTF-8\<close> in capitals) is of
  the documented form, with the payload \<^verbatim>\<open>e30=\<close>, yet the loader does not recognise it:
  it returns false and registers nothing. It loads the same payload under
  \<^verbatim>\<open>charset=utf-8\<close>.
\<close>

theorem loadInlineSourceMap_counterexample:
  "spec_data_url_payload ''data:application/json;charset=UTF-8;base64,e30='' = Some ''e30='' \<and>
   match_inline ''data:application/json;charset=UTF-8;base64,e30='' = None \<and>
   loadInlineSourceMap ex_platform ex_manager ''script-1''
       ''data:application/json;charset=UTF-8;base64,e30='' = (ex_manager, False) \<and>
   snd (loadInlineSourceMap ex_platform ex_manager ''script-1''
          ''data:application/json;charset=utf-8;base64,e30='') = True"
  by (simp add: spec_data_url_payload_def match_inline_def loadInlineSourceMap_def
      strip_prefix_def startsWith_def dot_plus_to_end_def has_line_terminator_def
      ex_platform_def ex_manager_def)

subsection \<open>Admission of target URLs and the session limit\<close>

text \<open>
  \<open>connect\<close> of the manager with a server configuration does what C1 says. A session is
  returned only for a URL that parses, has the protocol \<open>ws:\<close> or \<open>wss:\<close>, and whose host
  is in the allow-list unless the configuration does not require confirmation for
  remote hosts. A URL that does not parse, one with another protocol, and one with a
  host outside the list under required confirmation fail with \<open>INVALID_PARAMETERS\<close> and
  leave the registry as it was.
\<close>

lemma validateTargetUrl_admits:
  "(validateTargetUrl parseUrl config url = Inr ()) =
     (\<exists>parsed. parseUrl url = Some parsed \<and>
        (url_protocol parsed = ''ws:'' \<or> url_protocol parsed = ''wss:'') \<and>
        (url_hostname parsed \<in> set (allowedHosts config) \<or>
         \<not> requireConfirmationForRemote config))"
  by (auto simp add: validateTargetUrl_def split: option.splits)

lemma validateTargetUrl_rejects:
  "validateTargetUrl parseUrl config url = Inl e \<Longrightarrow> error_code e = Some INVALID_PARAMETERS"
  by (auto simp add: validateTargetUrl_def split: option.splits if_splits)

lemma connect_admission:
  "(snd (connect parseUrl config sessions url name sessionId now during connectError) = Inr session \<longrightarrow>
      (\<exists>parsed. parseUrl url = Some parsed \<and>
         (url_protocol parsed = ''ws:'' \<or> url_protocol parsed = ''wss:'') \<and>
         (url_hostname parsed \<in> set (allowedHosts config) \<or>
          \<not> requireConfirmationForRemote config))) \<and>
   (validateTargetUrl parseUrl config url \<noteq> Inr () \<longrightarrow>
      (\<exists>message. connect parseUrl config sessions url name sessionId now during connectError =
                   (sessions, Inl (DebuggerError INVALID_PARAMETERS message))))"
proof -
  have "snd (connect parseUrl config sessions url name sessionId now during connectError) = Inr session
        \<longrightarrow> validateTargetUrl parseUrl config url = Inr ()"
    by (auto simp add: connect_def split: sum.splits)
  moreover have "validateTargetUrl parseUrl config url \<noteq> Inr () \<longrightarrow>
      (\<exists>message. connect parseUrl config sessions url name sessionId now during connectError =
                   (sessions, Inl (DebuggerError INVALID_PARAMETERS message)))"
    by (auto simp add: connect_def validateTargetUrl_def split: option.splits)
  ultimately show ?thesis
    by (simp add: validateTargetUrl_admits)
qed

text \<open>
  \<open>createSession\<close> of \<^verbatim>\<open>src/session-manager.ts\<close> never looks at the URL: whenever the
  client connects the session is installed, and every failure is \<open>CONNECTION_FAILED\<close>.
\<close>

lemma createSession_ignores_url:
  "snd (createSession P sessions sessionId url name now during None) = Inr sessionId \<and>
   map_of (fst (createSession P sessions sessionId url name now during None)) sessionId \<noteq> None \<and>
   createSession P sessions sessionId url name now during (Some message) =
     (sessions, Inl (DebuggerError CONNECTION_FAILED
                       (''Failed to connect to '' @ url @ '': '' @ message)))"
  by (simp add: createSession_def Let_def AList.update_conv')

text \<open>
  C1 fails on \<open>createSession\<close>. Under the default configuration \<open>connect\<close> rejects the
  remote host and the \<open>http\<close> URL with \<open>INVALID_PARAMETERS\<close>; \<open>createSession\<close> installs
  a session for each when the client connects, and reports a malformed URL that the
  client cannot connect to as \<open>CONNECTION_FAILED\<close>.
\<close>

theorem createSession_admits_remote_host:
  "connect ex_parseUrl DEFAULT_CONFIG [] ''ws://remote.example:9229/devtools'' None ''sid-1'' 0 []
       None =
     ([], Inl (DebuggerError INVALID_PARAMETERS
                 (''Remote host '' @ [CHR 0x22] @ ''remote.example'' @ [CHR 0x22] @
                  '' not in allowed hosts list. Add to configuration to allow.''))) \<and>
   connect ex_parseUrl DEFAULT_CONFIG [] ''http://localhost:9229/t'' None ''sid-1'' 0 [] None =
     ([], Inl (DebuggerError INVALID_PARAMETERS
                 ''URL must use ws:// or wss:// scheme: http://localhost:9229/t'')) \<and>
   connect ex_parseUrl DEFAULT_CONFIG [] ''not a url'' None ''sid-1'' 0 []
       (Some (DebuggerError CONNECTION_FAILED ''WebSocket error: connect ECONNREFUSED'')) =
     ([], Inl (DebuggerError INVALID_PARAMETERS ''Invalid URL: not a url'')) \<and>
   snd (createSession ex_platform [] ''sid-1'' ''ws://remote.example:9229/devtools'' None 0 [] None) =
     Inr ''sid-1'' \<and>
   map fst (fst (createSession ex_platform [] ''sid-1'' ''ws://remote.example:9229/devtools''
                   None 0 [] None)) = [''sid-1''] \<and>
   map fst (fst (createSession ex_platform [] ''sid-1'' ''http://localhost:9229/t''
                   None 0 [] None)) = [''sid-1''] \<and>
   createSession ex_platform [] ''sid-1'' ''not a url'' None 0 [] (Some ''connect ECONNREFUSED'') =
     ([], Inl (DebuggerError CONNECTION_FAILED
                 ''Failed to connect to not a url: connect ECONNREFUSED''))"
  by (simp add: connect_def validateTargetUrl_def ex_parseUrl_def DEFAULT_CONFIG_def
      createSession_def handle_events_def Let_def)

text \<open>
  C2, as amended, for \<open>connect\<close>. When the registry holds at least the configured
  maximum of sessions, every call fails and leaves the registry as it was: with
  \<open>MAX_SESSIONS_REACHED\<close> when the URL passes the admission check, with the
  \<open>INVALID_PARAMETERS\<close> of that check otherwise (the URL is validated first).
\<close>

theorem connect_at_capacity:
  assumes "int (length sessions) \<ge> maxConcurrentSessions config"
  shows "fst (connect parseUrl config sessions url name sessionId now during connectError) = sessions \<and>
         (case validateTargetUrl parseUrl config url of
            Inl e \<Rightarrow>
              snd (connect parseUrl config sessions url name sessionId now during connectError) = Inl e \<and>
              error_code e = Some INVALID_PARAMETERS
          | Inr u \<Rightarrow>
              snd (connect parseUrl config sessions url name sessionId now during connectError) =
                Inl (DebuggerError MAX_SESSIONS_REACHED
                       (''Maximum concurrent sessions ('' @
                        show_int (maxConcurrentSessions config) @ '') reached'')))"
  using assms
  by (auto simp add: connect_def validateTargetUrl_rejects split: sum.splits)

theorem connect_at_capacity_witness:
  "int (length [(''sid-0'', ex_wk_session)]) \<ge> maxConcurrentSessions ex_full_config \<and>
   connect ex_parseUrl ex_full_config [(''sid-0'', ex_wk_session)] ''ws://localhost:9229/t''
       None ''sid-1'' 0 [] None =
     ([(''sid-0'', ex_wk_session)],
      Inl (DebuggerError MAX_SESSIONS_REACHED ''Maximum concurrent sessions (1) reached''))"
proof -
  have c: "int (length [(''sid-0'', ex_wk_session)]) \<ge> maxConcurrentSessions ex_full_config"
    by (simp add: ex_full_config_def)
  have v: "validateTargetUrl ex_parseUrl ex_full_config ''ws://localhost:9229/t'' = Inr ()"
    by (simp add: validateTargetUrl_def ex_parseUrl_def ex_full_config_def DEFAULT_CONFIG_def)
  have m: "maxConcurrentSessions ex_full_config = 1"
    by (simp add: ex_full_config_def)
  have s: "show_int 1 = ''1''"
    by (simp add: show_int_def show_nat.simps)
  show ?thesis
    using c connect_at_capacity [OF c, of ex_parseUrl "''ws://localhost:9229/t''" None
        "''sid-1''" 0 "[]" None]
    by (simp add: v m s prod_eq_iff)
qed

text \<open>
  C2 as stated fails: with the registry at its maximum, a call with a URL that does not
  pass the admission check fails with \<open>INVALID_PARAMETERS\<close>, not with
  \<open>MAX_SESSIONS_REACHED\<close>.
\<close>

theorem connect_at_capacity_counterexample:
  "int (length [(''sid-0'', ex_wk_session)]) \<ge> maxConcurrentSessions ex_full_config \<and>
   connect ex_parseUrl ex_full_config [(''sid-0'', ex_wk_session)] ''http://localhost:9229/t''
       None ''sid-1'' 0 [] None =
     ([(''sid-0'', ex_wk_session)],
      Inl (DebuggerError INVALID_PARAMETERS
             ''URL must use ws:// or wss:// scheme: http://localhost:9229/t''))"
  by (simp add: connect_def validateTargetUrl_def ex_parseUrl_def ex_full_config_def
      DEFAULT_CONFIG_def)

end
